theory Spec2Isabelle
  imports Complex_Main "HOL-Library.Multiset" "HOL-Library.Sublist" "HOL-Library.Dlist"
    "HOL-Library.Char_ord" "HOL-Library.List_Lexorder"
begin

section \<open>Data model\<close>

text \<open>
  The matching pipeline (celery_tasks.py) passes communities around as Python dicts.
  A row of the data store carries the keys community_id, community_name, category,
  member_count and recent_activity; the key match_score is present only on the dicts
  that the hybrid matcher builds from a similarity-search hit, so it is optional here
  and reading it from a dict without it is a KeyError. Similarity scores are Python
  floats; they are modelled by the real number they denote (no NaN).
\<close>

record community =
  community_id :: string
  community_name :: string
  category :: string
  match_score :: "real option"
  member_count :: int
  recent_activity :: int

section \<open>Diversity injection (celery_tasks.py, \<open>_apply_diversity_filter\<close>)\<close>

text \<open>Python's \<open>list.pop(i)\<close> and \<open>list.insert(i, x)\<close> for an index inside the list.\<close>

definition list_pop :: "nat \<Rightarrow> 'a list \<Rightarrow> 'a list" where
  "list_pop i xs = take i xs @ drop (Suc i) xs"

definition list_insert :: "nat \<Rightarrow> 'a \<Rightarrow> 'a list \<Rightarrow> 'a list" where
  "list_insert i x xs = take i xs @ x # drop i xs"

text \<open>
  The loop \<open>for i in range(3, len(matches))\<close>: at the first index whose category is not
  the dominant one the entry is popped and inserted at position 2, and the loop breaks.
\<close>

function diversity_loop :: "string \<Rightarrow> nat \<Rightarrow> community list \<Rightarrow> community list" where
  "diversity_loop dominant_category i matches =
     (if i < length matches then
        (if category (matches ! i) \<noteq> dominant_category
         then list_insert 2 (matches ! i) (list_pop i matches)
         else diversity_loop dominant_category (Suc i) matches)
      else matches)"
  by pat_completeness auto
termination
  by (relation "measure (\<lambda>(d, i, ms). length ms - i)") auto

declare diversity_loop.simps [simp del]

text \<open>
  \<open>Counter(top_3_categories)\<close> has as many keys as there are distinct categories among
  the first three entries.
\<close>

definition apply_diversity_filter :: "community list \<Rightarrow> community list" where
  "apply_diversity_filter matches =
     (if length matches < 4 then matches
      else
        let top_3_categories = map category (take 3 matches) in
        if length (remdups top_3_categories) = 1
        then diversity_loop (hd top_3_categories) 3 matches
        else matches)"


section \<open>Collaborators\<close>

text \<open>
  The language model service, the relational store, the vector index and the Redis
  cache are external. Each call the pipeline makes is named; a call either raises or
  returns what the environment answers. The environment (\<open>world\<close>) fixes, for one run of
  the pipeline, which calls raise and what the others return.
\<close>

datatype call =
  ChatSanitize | Embedding | ChatIntro | Moderation
  | FilterByLocation | VectorSearch | PopularCommunities | AutoJoin
  | MembersForIntro | CommunityDetails | CacheSetVector | Publish
  | SanitizedProfileInit

datatype error = KeyError string | CollaboratorError call

text \<open>A hit of the vector index: \<open>match.metadata.get("community_id")\<close> may be None.\<close>

record vector_match =
  vm_community_id :: "string option"
  vm_match_score :: real

record member =
  m_user_id :: string
  username :: string

record moderation_scores =
  hate :: real
  harassment :: real
  violence :: real
  sexual :: real

record world =
  raises :: "call \<Rightarrow> bool"
  sanitize_reply :: "string \<Rightarrow> string list \<Rightarrow> (string \<times> string list \<times> bool) option"
  embedding_reply :: "string \<Rightarrow> real list"
  intro_reply :: "string \<Rightarrow> string \<Rightarrow> string \<Rightarrow> string option \<Rightarrow> string"
  moderation_reply :: "string \<Rightarrow> moderation_scores"
  location_rows :: "string \<Rightarrow> string \<Rightarrow> community list"
  popular_rows :: "community list"
  index_hits :: "real list \<Rightarrow> string list \<Rightarrow> vector_match list"
  intro_members :: "string \<Rightarrow> member list"
  descriptions :: "string \<Rightarrow> string option"
  re_sub :: "string \<Rightarrow> string \<Rightarrow> string \<Rightarrow> string"
  elapsed_ms :: int

text \<open>
  \<open>sanitize_reply\<close> is the parsed JSON answer of the chat model, None when the answer is
  not JSON or lacks one of the three keys; \<open>intro_reply\<close> is the stripped text of the
  introduction for a bio, a community name, its description and the member to mention;
  \<open>re_sub\<close> is Python's \<open>re.sub(pattern, repl, text)\<close>; \<open>location_rows\<close>, \<open>popular_rows\<close> and \<open>index_hits\<close> are the ordered
  answers of the SQL queries and of the index query before LIMIT and top_k cut them;
  \<open>elapsed_ms\<close> is the wall-clock time of the run.
\<close>

subsection \<open>database.py\<close>

definition filter_communities_by_location ::
  "world \<Rightarrow> string \<Rightarrow> string \<Rightarrow> nat \<Rightarrow> error + community list" where
  "filter_communities_by_location w city timezone limit =
     (if raises w FilterByLocation then Inl (CollaboratorError FilterByLocation)
      else Inr (take limit (location_rows w city timezone)))"

definition vector_search ::
  "world \<Rightarrow> real list \<Rightarrow> string list \<Rightarrow> nat \<Rightarrow> error + vector_match list" where
  "vector_search w query_vector community_ids top_k =
     (if raises w VectorSearch then Inl (CollaboratorError VectorSearch)
      else Inr (take top_k (index_hits w query_vector community_ids)))"

definition get_popular_communities :: "world \<Rightarrow> nat \<Rightarrow> error + community list" where
  "get_popular_communities w limit =
     (if raises w PopularCommunities then Inl (CollaboratorError PopularCommunities)
      else Inr (take limit (popular_rows w)))"

definition get_community_details ::
  "world \<Rightarrow> string list \<Rightarrow> error + (string \<rightharpoonup> string)" where
  "get_community_details w community_ids =
     (if raises w CommunityDetails then Inl (CollaboratorError CommunityDetails)
      else Inr (\<lambda>c. if c \<in> set community_ids then descriptions w c else None))"

definition get_community_members_for_intro ::
  "world \<Rightarrow> string \<Rightarrow> nat \<Rightarrow> error + member list" where
  "get_community_members_for_intro w cid limit =
     (if raises w MembersForIntro then Inl (CollaboratorError MembersForIntro)
      else Inr (take limit (intro_members w cid)))"

text \<open>
  The mutable state a run touches: the table community_members, whose rows are
  unique in (user_id, community_id); the Redis keys user_vector:<user>; the messages
  published on the channels match_updates_<user>; and the task states the worker
  reports.
\<close>

datatype task_update = PROCESSING string | FAILED error


datatype match_tier = SOULMATE | EXPLORER | FALLBACK

text \<open>
  \<open>CommunityMatch\<close> and \<open>MatchResult\<close> are declared in models.py, which is not among the
  sources; their fields are the keyword arguments of the constructor calls in
  celery_tasks.py. A field of \<open>MatchResult\<close> that a call does not pass is None here: the
  declaration's default applies to it.
\<close>

record community_match =
  cm_community_id :: string
  cm_community_name :: string
  cm_category :: string
  cm_match_score :: real
  cm_member_count :: int
  cm_recent_activity :: int

record match_result =
  task_id :: string
  user_id :: string
  tier :: match_tier
  matches :: "community_match list"
  auto_joined_community :: "string option"
  ai_intro_generated :: "bool option"
  requires_profile_update :: "bool option"
  processing_time_ms :: int

record store =
  community_members :: "(string \<times> string) set"
  user_vectors :: "string \<rightharpoonup> real list"
  published :: "(string \<times> match_result) list"
  task_updates :: "task_update list"

text \<open>
  \<open>INSERT ... ON CONFLICT (user_id, community_id) DO NOTHING RETURNING user_id\<close>: a row
  comes back exactly when the pair was not in the table.
\<close>

definition auto_join_community ::
  "world \<Rightarrow> store \<Rightarrow> string \<Rightarrow> string \<Rightarrow> store \<times> (error + bool)" where
  "auto_join_community w st uid cid =
     (if raises w AutoJoin then (st, Inl (CollaboratorError AutoJoin))
      else (st\<lparr>community_members := insert (uid, cid) (community_members st)\<rparr>,
            Inr ((uid, cid) \<notin> community_members st)))"

subsection \<open>cache.py\<close>

definition set_user_vector :: "world \<Rightarrow> store \<Rightarrow> string \<Rightarrow> real list \<Rightarrow> error + store" where
  "set_user_vector w st uid vector =
     (if raises w CacheSetVector then Inl (CollaboratorError CacheSetVector)
      else Inr (st\<lparr>user_vectors := (user_vectors st)(uid \<mapsto> vector)\<rparr>))"

definition publish_match_result ::
  "world \<Rightarrow> store \<Rightarrow> string \<Rightarrow> match_result \<Rightarrow> error + store" where
  "publish_match_result w st uid result =
     (if raises w Publish then Inl (CollaboratorError Publish)
      else Inr (st\<lparr>published := published st @ [(uid, result)]\<rparr>))"

subsection \<open>ai_services.py\<close>

definition email_pattern :: string where
  "email_pattern =
     [CHR 0x5C] @ ''b[A-Za-z0-9._%+-]+@[A-Za-z0-9.-]+'' @ [CHR 0x5C] @ ''.[A-Z|a-z]{2,}''
       @ [CHR 0x5C] @ ''b''"

definition phone_pattern :: string where
  "phone_pattern =
     [CHR 0x5C] @ ''b'' @ [CHR 0x5C] @ ''d{3}[-.]?'' @ [CHR 0x5C] @ ''d{3}[-.]?''
       @ [CHR 0x5C] @ ''d{4}'' @ [CHR 0x5C] @ ''b''"

definition basic_pii_removal :: "world \<Rightarrow> string \<Rightarrow> string" where
  "basic_pii_removal w text =
     (let text = re_sub w email_pattern ''[email removed]'' text;
          text = re_sub w phone_pattern ''[phone removed]'' text
      in text)"

text \<open>
  The whole body of \<open>sanitize_and_enrich_profile\<close> after the prompt is inside one
  \<open>try\<close>: the chat call, \<open>json.loads\<close> and the three key lookups. Whatever raises there
  leads to the \<open>except Exception\<close> branch.
\<close>

definition sanitize_and_enrich_profile ::
  "world \<Rightarrow> string \<Rightarrow> string list \<Rightarrow> string \<times> string list \<times> bool" where
  "sanitize_and_enrich_profile w bio interest_tags =
     (if raises w ChatSanitize then (basic_pii_removal w bio, interest_tags, False)
      else case sanitize_reply w bio interest_tags of
             Some result \<Rightarrow> result
           | None \<Rightarrow> (basic_pii_removal w bio, interest_tags, False))"

definition generate_embedding :: "world \<Rightarrow> string \<Rightarrow> error + real list" where
  "generate_embedding w text =
     (if raises w Embedding then Inl (CollaboratorError Embedding)
      else Inr (embedding_reply w text))"

fun join :: "string \<Rightarrow> string list \<Rightarrow> string" where
  "join sep [] = []"
| "join sep [x] = x"
| "join sep (x # y # ys) = x @ sep @ join sep (y # ys)"

definition create_embedding_payload :: "string \<Rightarrow> string list \<Rightarrow> string" where
  "create_embedding_payload bio tags =
     (let tags_text = join '', '' tags
      in ''Bio: '' @ bio @ [CHR 0x0A] @ ''Interests: '' @ tags_text)"

definition check_toxicity :: "world \<Rightarrow> string \<Rightarrow> real" where
  "check_toxicity w text =
     (if raises w Moderation then 0.0
      else let r = moderation_reply w text
           in Max (set [hate r, harassment r, violence r, sexual r]))"

definition generate_ai_introduction ::
  "world \<Rightarrow> string \<Rightarrow> string \<Rightarrow> string \<Rightarrow> member list \<Rightarrow> string \<times> string option \<times> real" where
  "generate_ai_introduction w user_bio cname cdescription active_members =
     (let mentioned_member =
            (case active_members of [] \<Rightarrow> None | m # _ \<Rightarrow> Some (username m))
      in if raises w ChatIntro
         then (''Welcome to '' @ cname @ ''! We're excited to have you here.'', None, 0.0)
         else let intro_text = intro_reply w user_bio cname cdescription mentioned_member;
                  toxicity_score = check_toxicity w intro_text
              in (intro_text, mentioned_member, toxicity_score))"


section \<open>Hybrid matcher (celery_tasks.py, \<open>_hybrid_matching_algorithm\<close>)\<close>

text \<open>
  \<open>community_map = {c["community_id"]: c for c in filtered_communities}\<close>: of two rows
  with one id the later one stays.
\<close>

definition community_map :: "community list \<Rightarrow> (string \<rightharpoonup> community)" where
  "community_map filtered_communities =
     map_of (rev (map (\<lambda>c. (community_id c, c)) filtered_communities))"

text \<open>The loop over the hits: a hit whose id is not a key of the map appends nothing.\<close>

fun enrich_matches :: "(string \<rightharpoonup> community) \<Rightarrow> vector_match list \<Rightarrow> community list" where
  "enrich_matches cmap [] = []"
| "enrich_matches cmap (vm # vms) =
     (case vm_community_id vm of
        None \<Rightarrow> enrich_matches cmap vms
      | Some comm_id \<Rightarrow>
          (case cmap comm_id of
             None \<Rightarrow> enrich_matches cmap vms
           | Some c \<Rightarrow>
               \<lparr>community_id = comm_id,
                community_name = community_name c,
                category = category c,
                match_score = Some (vm_match_score vm),
                member_count = member_count c,
                recent_activity = recent_activity c\<rparr> # enrich_matches cmap vms))"

definition hybrid_matching_algorithm ::
  "world \<Rightarrow> real list \<Rightarrow> string \<Rightarrow> string \<Rightarrow> error + community list" where
  "hybrid_matching_algorithm w user_vector city timezone =
     (case filter_communities_by_location w city timezone 1000 of
        Inl e \<Rightarrow> Inl e
      | Inr filtered_communities \<Rightarrow>
          if filtered_communities = [] then get_popular_communities w 5
          else
            let community_ids = map community_id filtered_communities in
            (case vector_search w user_vector community_ids 20 of
               Inl e \<Rightarrow> Inl e
             | Inr vector_matches \<Rightarrow>
                 Inr (apply_diversity_filter
                        (enrich_matches (community_map filtered_communities) vector_matches))))"

section \<open>Decision engine (celery_tasks.py, \<open>_apply_decision_engine\<close>)\<close>

text \<open>
  \<open>score if score is not None else community.get("match_score", 0.0)\<close>; the other keys
  are on every row the data store returns.
\<close>

definition to_community_match :: "community \<Rightarrow> real option \<Rightarrow> community_match" where
  "to_community_match c score =
     \<lparr>cm_community_id = community_id c,
      cm_community_name = community_name c,
      cm_category = category c,
      cm_match_score =
        (case score of Some s \<Rightarrow> s
         | None \<Rightarrow> (case match_score c of Some s \<Rightarrow> s | None \<Rightarrow> 0.0)),
      cm_member_count = member_count c,
      cm_recent_activity = recent_activity c\<rparr>"

text \<open>
  The two Fallback branches (no matches at all, top score under 0.55) are the same
  statements: the popular communities with score 0.0 and a profile update request.
\<close>

definition fallback_result :: "world \<Rightarrow> string \<Rightarrow> string \<Rightarrow> error + match_result" where
  "fallback_result w tid uid =
     (case get_popular_communities w 5 of
        Inl e \<Rightarrow> Inl e
      | Inr popular \<Rightarrow>
          Inr \<lparr>task_id = tid, user_id = uid, tier = FALLBACK,
               matches = map (\<lambda>c. to_community_match c (Some 0.0)) popular,
               auto_joined_community = None, ai_intro_generated = None,
               requires_profile_update = Some True,
               processing_time_ms = 0\<rparr>)"

text \<open>
  The statements under \<open>if joined:\<close>: the members and the description are fetched, the
  introduction is generated, and the flag is the test \<open>toxicity < 0.75\<close>.
\<close>

definition introduction_step :: "world \<Rightarrow> string \<Rightarrow> community \<Rightarrow> error + bool" where
  "introduction_step w user_bio top_match =
     (case get_community_members_for_intro w (community_id top_match) 5 of
        Inl e \<Rightarrow> Inl e
      | Inr active_members \<Rightarrow>
          (case get_community_details w [community_id top_match] of
             Inl e \<Rightarrow> Inl e
           | Inr community_details \<Rightarrow>
               let description =
                     (case community_details (community_id top_match) of
                        None \<Rightarrow> [] | Some d \<Rightarrow> d);
                   (intro_text, mentioned_member, toxicity) =
                     generate_ai_introduction w user_bio (community_name top_match)
                       description active_members
               in Inr (toxicity < 0.75)))"

definition apply_decision_engine ::
  "world \<Rightarrow> store \<Rightarrow> string \<Rightarrow> string \<Rightarrow> string \<Rightarrow> community list
     \<Rightarrow> store \<times> (error + match_result)" where
  "apply_decision_engine w st tid uid user_bio ms =
     (case ms of
        [] \<Rightarrow> (st, fallback_result w tid uid)
      | top_match # _ \<Rightarrow>
          (case match_score top_match of
             None \<Rightarrow> (st, Inl (KeyError ''match_score''))
           | Some top_score \<Rightarrow>
               if top_score > 0.87 then
                 (case auto_join_community w st uid (community_id top_match) of
                    (st', Inl e) \<Rightarrow> (st', Inl e)
                  | (st', Inr joined) \<Rightarrow>
                      (case (if joined then introduction_step w user_bio top_match
                             else Inr False) of
                         Inl e \<Rightarrow> (st', Inl e)
                       | Inr intro_generated \<Rightarrow>
                           (st',
                            Inr \<lparr>task_id = tid, user_id = uid, tier = SOULMATE,
                                 matches = [to_community_match top_match None],
                                 auto_joined_community = Some (community_id top_match),
                                 ai_intro_generated = Some intro_generated,
                                 requires_profile_update = None,
                                 processing_time_ms = 0\<rparr>)))
               else if top_score \<ge> 0.55 then
                 (st,
                  Inr \<lparr>task_id = tid, user_id = uid, tier = EXPLORER,
                       matches = map (\<lambda>m. to_community_match m None) (take 5 ms),
                       auto_joined_community = None, ai_intro_generated = None,
                       requires_profile_update = None,
                       processing_time_ms = 0\<rparr>)
               else (st, fallback_result w tid uid)))"


section \<open>Task orchestrator (celery_tasks.py, \<open>process_match_task\<close>)\<close>

record user_data =
  ud_user_id :: string
  ud_bio :: string
  ud_interest_tags :: "string list"
  ud_city :: string
  ud_timezone :: string

definition update_state :: "store \<Rightarrow> task_update \<Rightarrow> store" where
  "update_state st u = st\<lparr>task_updates := task_updates st @ [u]\<rparr>"

text \<open>
  \<open>SanitizedProfile\<close> is declared in models.py, which is not among the sources: its
  fields are the keyword arguments of the constructor call in \<open>process_match_task\<close>, and
  whether the constructor rejects the values and raises is a switch of the environment,
  as for the other calls.
\<close>

record sanitized_profile =
  sp_user_id :: string
  sp_sanitized_bio :: string
  sp_enriched_tags :: "string list"
  sp_city :: string
  sp_timezone :: string
  sp_pii_removed :: bool

definition SanitizedProfile ::
  "world \<Rightarrow> string \<Rightarrow> string \<Rightarrow> string list \<Rightarrow> string \<Rightarrow> string \<Rightarrow> bool
     \<Rightarrow> error + sanitized_profile" where
  "SanitizedProfile w uid sanitized_bio enriched_tags city timezone pii_removed =
     (if raises w SanitizedProfileInit then Inl (CollaboratorError SanitizedProfileInit)
      else Inr \<lparr>sp_user_id = uid, sp_sanitized_bio = sanitized_bio,
                sp_enriched_tags = enriched_tags, sp_city = city, sp_timezone = timezone,
                sp_pii_removed = pii_removed\<rparr>)"

text \<open>
  The task reports the step it enters with \<open>update_state\<close>. The sanitized profile is
  built while the step is sanitization, the user vector is cached while it is
  vectorization, and the result is published while it is decision_engine. An answer of
  the chat model that can be read is taken to have the types the function declares. The
  \<open>except Exception\<close> of the task reports the state FAILED and raises the exception
  again.
\<close>

definition task_failed :: "store \<Rightarrow> error \<Rightarrow> store \<times> (error + match_result)" where
  "task_failed st e = (update_state st (FAILED e), Inl e)"

definition process_match_task ::
  "world \<Rightarrow> store \<Rightarrow> string \<Rightarrow> user_data \<Rightarrow> store \<times> (error + match_result)" where
  "process_match_task w st0 tid ud =
     (let st1 = update_state st0 (PROCESSING ''sanitization'');
          (sanitized_bio, enriched_tags, pii_removed) =
            sanitize_and_enrich_profile w (ud_bio ud) (ud_interest_tags ud)
      in case SanitizedProfile w (ud_user_id ud) sanitized_bio enriched_tags
                (ud_city ud) (ud_timezone ud) pii_removed of
           Inl e \<Rightarrow> task_failed st1 e
         | Inr profile \<Rightarrow>
             let st2 = update_state st1 (PROCESSING ''vectorization'');
                 embedding_text = create_embedding_payload sanitized_bio enriched_tags
             in
             (case generate_embedding w embedding_text of
                Inl e \<Rightarrow> task_failed st2 e
              | Inr user_vector \<Rightarrow>
                  (case set_user_vector w st2 (ud_user_id ud) user_vector of
                     Inl e \<Rightarrow> task_failed st2 e
                   | Inr st3 \<Rightarrow>
                       let st4 = update_state st3 (PROCESSING ''hybrid_matching'') in
                       (case hybrid_matching_algorithm w user_vector
                               (sp_city profile) (sp_timezone profile) of
                          Inl e \<Rightarrow> task_failed st4 e
                        | Inr ms \<Rightarrow>
                            let st5 = update_state st4 (PROCESSING ''decision_engine'') in
                            (case apply_decision_engine w st5 tid (ud_user_id ud)
                                    sanitized_bio ms of
                               (st6, Inl e) \<Rightarrow> task_failed st6 e
                             | (st6, Inr result) \<Rightarrow>
                                 let result = result\<lparr>processing_time_ms := elapsed_ms w\<rparr> in
                                 (case publish_match_result w st6 (ud_user_id ud) result of
                                    Inl e \<Rightarrow> task_failed st6 e
                                  | Inr st7 \<Rightarrow> (st7, Inr result)))))))"

text \<open>The step a task was in when it failed: the last PROCESSING state before FAILED.\<close>

definition failed_step :: "task_update list \<Rightarrow> string option" where
  "failed_step us =
     (case rev us of FAILED e # PROCESSING step # _ \<Rightarrow> Some step | _ \<Rightarrow> None)"

section \<open>Realtime gateway (websocket_server.py)\<close>

text \<open>
  \<open>active_connections\<close> maps a user id to the set of its connection ids. A Python set is
  a duplicate-free collection that is iterated in some order; it is a \<open>dlist\<close> here, and
  the order of the list stands for the order of iteration. \<open>sessions\<close> is the user id
  kept in the Socket.IO session of a connection, \<open>attempts\<close> the calls of \<open>sio.emit\<close> in
  the order they were made (event and room). The first argument of the handlers tells
  for which rooms \<open>sio.emit\<close> raises.
\<close>

record gateway =
  active_connections :: "string \<rightharpoonup> string dlist"
  sessions :: "string \<rightharpoonup> string"
  attempts :: "(string \<times> string) list"

definition emit :: "(string \<Rightarrow> bool) \<Rightarrow> gateway \<Rightarrow> string \<Rightarrow> string \<Rightarrow> gateway \<times> bool" where
  "emit emit_raises gw event room =
     (gw\<lparr>attempts := attempts gw @ [(event, room)]\<rparr>, \<not> emit_raises room)"

text \<open>
  The loop of \<open>broadcast_to_user\<close> over the copy \<open>sids\<close>. The \<open>except\<close> branch reads
  \<open>active_connections[user_id]\<close> again, a KeyError when the key is gone.
\<close>

fun broadcast_loop ::
  "(string \<Rightarrow> bool) \<Rightarrow> string \<Rightarrow> string list \<Rightarrow> gateway \<Rightarrow> error + gateway" where
  "broadcast_loop emit_raises uid [] gw = Inr gw"
| "broadcast_loop emit_raises uid (sid # sids) gw =
     (case emit emit_raises gw ''match_result'' sid of
        (gw', True) \<Rightarrow> broadcast_loop emit_raises uid sids gw'
      | (gw', False) \<Rightarrow>
          (case active_connections gw' uid of
             None \<Rightarrow> Inl (KeyError uid)
           | Some conns \<Rightarrow>
               broadcast_loop emit_raises uid sids
                 (gw'\<lparr>active_connections :=
                        (active_connections gw')(uid \<mapsto> Dlist.remove sid conns)\<rparr>)))"

definition broadcast_to_user :: "(string \<Rightarrow> bool) \<Rightarrow> gateway \<Rightarrow> string \<Rightarrow> error + gateway" where
  "broadcast_to_user emit_raises gw uid =
     (case active_connections gw uid of
        None \<Rightarrow> Inr gw
      | Some conns \<Rightarrow> broadcast_loop emit_raises uid (list_of_dlist conns) gw)"

text \<open>
  \<open>connect\<close>: \<open>auth\<close> is a dict or None; a missing or empty user id rejects the
  connection. An exception of the acknowledgement is caught and rejects it as well,
  after the connection has been entered.
\<close>

definition connect ::
  "(string \<Rightarrow> bool) \<Rightarrow> gateway \<Rightarrow> string \<Rightarrow> (string \<rightharpoonup> string) option \<Rightarrow> gateway \<times> bool" where
  "connect emit_raises gw sid auth =
     (let user_id = (case auth of None \<Rightarrow> None | Some a \<Rightarrow> a ''user_id'') in
      case user_id of
        None \<Rightarrow> (gw, False)
      | Some uid \<Rightarrow>
          if uid = [] then (gw, False)
          else
            let conns = (case active_connections gw uid of
                           None \<Rightarrow> Dlist.empty | Some c \<Rightarrow> c);
                gw1 = gw\<lparr>active_connections :=
                           (active_connections gw)(uid \<mapsto> Dlist.insert sid conns)\<rparr>;
                gw2 = gw1\<lparr>sessions := (sessions gw1)(sid \<mapsto> uid)\<rparr>
            in emit emit_raises gw2 ''connection_status'' sid)"

definition disconnect :: "gateway \<Rightarrow> string \<Rightarrow> gateway" where
  "disconnect gw sid =
     (case sessions gw sid of
        None \<Rightarrow> gw
      | Some uid \<Rightarrow>
          if uid = [] then gw
          else
            (case active_connections gw uid of
               None \<Rightarrow> gw
             | Some conns \<Rightarrow>
                 let conns' = Dlist.remove sid conns in
                 if Dlist.null conns'
                 then gw\<lparr>active_connections := (active_connections gw)(uid := None)\<rparr>
                 else gw\<lparr>active_connections := (active_connections gw)(uid \<mapsto> conns')\<rparr>))"

text \<open>The registry invariant: no user key with an empty set of connections.\<close>

definition no_empty_sets :: "gateway \<Rightarrow> bool" where
  "no_empty_sets gw = (\<forall>uid conns. active_connections gw uid = Some conns \<longrightarrow> \<not> Dlist.null conns)"


section \<open>Vocabulary of the properties\<close>

text \<open>A scored candidate with the fields the properties do not read filled in.\<close>

definition candidate :: "string \<Rightarrow> string \<Rightarrow> real \<Rightarrow> community" where
  "candidate cid cat score =
     \<lparr>community_id = cid, community_name = cid, category = cat,
      match_score = Some score, member_count = 0, recent_activity = 0\<rparr>"

text \<open>
  The index of the first entry from index 3 on whose category is not that of the first
  entry, and the test that the first three entries have one category.
\<close>

definition first_diverse :: "community list \<Rightarrow> nat" where
  "first_diverse xs = 3 + length (takeWhile (\<lambda>m. category m = category (xs ! 0)) (drop 3 xs))"

definition top_3_same :: "community list \<Rightarrow> bool" where
  "top_3_same xs = (category (xs ! 0) = category (xs ! 1) \<and> category (xs ! 1) = category (xs ! 2))"

definition example_candidates :: "community list" where
  "example_candidates =
     [candidate ''A'' ''Tech'' 0.95, candidate ''B'' ''Tech'' 0.92, candidate ''C'' ''Tech'' 0.89,
      candidate ''D'' ''Gaming'' 0.86, candidate ''E'' ''Tech'' 0.84]"

definition mixed_candidates :: "community list" where
  "mixed_candidates =
     [candidate ''1'' ''Programming'' 0.95, candidate ''2'' ''Gaming'' 0.92,
      candidate ''3'' ''Art'' 0.89, candidate ''4'' ''Art'' 0.5]"

text \<open>
  The tier of the result of a run of the decision engine, None when the run raised; and
  the test that none of the listed collaborator calls raises.
\<close>

definition tier_of :: "store \<times> (error + match_result) \<Rightarrow> match_tier option" where
  "tier_of out = (case snd out of Inl e \<Rightarrow> None | Inr r \<Rightarrow> Some (tier r))"

definition available :: "world \<Rightarrow> call list \<Rightarrow> bool" where
  "available w cs = list_all (\<lambda>c. \<not> raises w c) cs"

text \<open>
  The toxicity score that \<open>generate_ai_introduction\<close> returns for the top match when the
  members and the description have been fetched.
\<close>

definition intro_toxicity :: "world \<Rightarrow> string \<Rightarrow> community \<Rightarrow> real" where
  "intro_toxicity w bio m =
     snd (snd (generate_ai_introduction w bio (community_name m)
                 (case descriptions w (community_id m) of None \<Rightarrow> [] | Some d \<Rightarrow> d)
                 (take 5 (intro_members w (community_id m)))))"

text \<open>
  Concrete environments and stores: one in which every collaborator answers and the
  data store is empty, a store with nobody joined, a store in which user u is already a
  member of community A, and the environment in which only the moderation call raises.
\<close>

definition quiet_world :: world where
  "quiet_world =
     \<lparr>raises = (\<lambda>c. False),
      sanitize_reply = (\<lambda>bio tags. Some (bio, tags, False)),
      embedding_reply = (\<lambda>text. [1, 0]),
      intro_reply = (\<lambda>bio cname cdesc mentioned. ''Hello''),
      moderation_reply = (\<lambda>text. \<lparr>hate = 0.01, harassment = 0.02, violence = 0, sexual = 0\<rparr>),
      location_rows = (\<lambda>city tz. []),
      popular_rows = [],
      index_hits = (\<lambda>v ids. []),
      intro_members = (\<lambda>cid. []),
      descriptions = (\<lambda>cid. None),
      re_sub = (\<lambda>pattern repl text. text),
      elapsed_ms = 1200\<rparr>"

definition empty_store :: store where
  "empty_store = \<lparr>community_members = {}, user_vectors = Map.empty, published = [], task_updates = []\<rparr>"

definition member_store :: store where
  "member_store = empty_store\<lparr>community_members := {(''u'', ''A'')}\<rparr>"

definition outage_world :: world where
  "outage_world = quiet_world\<lparr>raises := (\<lambda>c. c = Moderation)\<rparr>"

text \<open>The Soulmate result for candidate A, task t and user u.\<close>

definition soulmate_result_A :: "bool \<Rightarrow> match_result" where
  "soulmate_result_A intro =
     \<lparr>task_id = ''t'', user_id = ''u'', tier = SOULMATE,
      matches = [\<lparr>cm_community_id = ''A'', cm_community_name = ''A'', cm_category = ''Tech'',
                 cm_match_score = 0.9, cm_member_count = 0, cm_recent_activity = 0\<rparr>],
      auto_joined_community = Some ''A'', ai_intro_generated = Some intro,
      requires_profile_update = None, processing_time_ms = 0\<rparr>"

text \<open>
  The score of a candidate, 0.0 without the key as \<open>.get("match_score", 0.0)\<close> reads it,
  and the test that a list is in descending order of score.
\<close>

definition score_of :: "community \<Rightarrow> real" where
  "score_of c = (case match_score c of Some s \<Rightarrow> s | None \<Rightarrow> 0)"

definition score_descending :: "community list \<Rightarrow> bool" where
  "score_descending xs = sorted_wrt (\<lambda>a b. score_of a \<ge> score_of b) xs"

text \<open>
  The rows the locality filter returns to the matcher, the hits the similarity search
  returns for them, and the test that a hit carries the id of one of the rows.
\<close>

definition stage1 :: "world \<Rightarrow> string \<Rightarrow> string \<Rightarrow> community list" where
  "stage1 w city timezone = take 1000 (location_rows w city timezone)"

definition hits :: "world \<Rightarrow> real list \<Rightarrow> string \<Rightarrow> string \<Rightarrow> vector_match list" where
  "hits w user_vector city timezone =
     take 20 (index_hits w user_vector (map community_id (stage1 w city timezone)))"

definition kept :: "community list \<Rightarrow> vector_match \<Rightarrow> bool" where
  "kept rows vm =
     (case vm_community_id vm of
        None \<Rightarrow> False
      | Some cid \<Rightarrow> cid \<in> community_id ` set rows)"

text \<open>
  A row of the data store (no score), a hit of the index, a merged candidate, and an
  environment with five local communities whose index returns six hits in descending
  order of score, the fourth (Z) for a community that is not among the rows.
\<close>

definition row :: "string \<Rightarrow> string \<Rightarrow> int \<Rightarrow> community" where
  "row cid cat members =
     \<lparr>community_id = cid, community_name = cid, category = cat,
      match_score = None, member_count = members, recent_activity = 0\<rparr>"

definition hit :: "string \<Rightarrow> real \<Rightarrow> vector_match" where
  "hit cid score = \<lparr>vm_community_id = Some cid, vm_match_score = score\<rparr>"

definition scored :: "string \<Rightarrow> string \<Rightarrow> int \<Rightarrow> real \<Rightarrow> community" where
  "scored cid cat members score = (row cid cat members)\<lparr>match_score := Some score\<rparr>"

definition example_world :: world where
  "example_world = quiet_world
     \<lparr>location_rows := (\<lambda>city tz. [row ''A'' ''Tech'' 50, row ''B'' ''Tech'' 40, row ''C'' ''Tech'' 30,
                                     row ''D'' ''Gaming'' 20, row ''E'' ''Tech'' 10]),
      index_hits := (\<lambda>v ids. [hit ''A'' 0.95, hit ''B'' 0.92, hit ''C'' 0.89, hit ''Z'' 0.88,
                               hit ''D'' 0.86, hit ''E'' 0.84])\<rparr>"

definition example_output :: "community list" where
  "example_output =
     [scored ''A'' ''Tech'' 50 0.95, scored ''B'' ''Tech'' 40 0.92, scored ''D'' ''Gaming'' 20 0.86,
      scored ''C'' ''Tech'' 30 0.89, scored ''E'' ''Tech'' 10 0.84]"

text \<open>
  A submission, and environments for it: one without local communities and with one
  popular community; the example environment with the sanitize call raising, and with
  the sanitize and the embedding call raising.
\<close>

definition example_user :: user_data where
  "example_user =
     \<lparr>ud_user_id = ''u'', ud_bio = ''bio'', ud_interest_tags = [''General''],
      ud_city = ''Austin'', ud_timezone = ''America/Chicago''\<rparr>"

definition no_locality_world :: world where
  "no_locality_world = quiet_world\<lparr>popular_rows := [row ''P'' ''Music'' 900]\<rparr>"





text \<open>
  Gateways: the one nobody is connected to; the auth dict of a user; user u connected
  once (s1) and three times (s1, s2, s3); the set of connections that holds the given
  ids; and the gateway in which user u is a key with no connection left.
\<close>

definition empty_gateway :: gateway where
  "empty_gateway = \<lparr>active_connections = Map.empty, sessions = Map.empty, attempts = []\<rparr>"

definition auth_of :: "string \<Rightarrow> (string \<rightharpoonup> string) option" where
  "auth_of uid = Some [''user_id'' \<mapsto> uid]"

definition one_tab :: gateway where
  "one_tab = fst (connect (\<lambda>sid. False) empty_gateway ''s1'' (auth_of ''u''))"

definition three_tabs :: gateway where
  "three_tabs =
     fst (connect (\<lambda>sid. False)
            (fst (connect (\<lambda>sid. False) one_tab ''s2'' (auth_of ''u''))) ''s3'' (auth_of ''u''))"

definition tabs :: "string list \<Rightarrow> string dlist" where
  "tabs sids = foldr Dlist.insert sids Dlist.empty"

definition stale_tab :: gateway where
  "stale_tab =
     \<lparr>active_connections = [''u'' \<mapsto> Dlist.empty],
      sessions = [''s1'' \<mapsto> ''u''],
      attempts = [(''connection_status'', ''s1''), (''match_result'', ''s1'')]\<rparr>"

text \<open>
  The gateway after a result for a user has been sent to each connection in \<open>conns\<close>: one
  attempt per connection, and the connections whose \<open>emit\<close> raised taken out of the
  user's set.
\<close>

definition delivered :: "(string \<Rightarrow> bool) \<Rightarrow> string \<Rightarrow> string dlist \<Rightarrow> gateway \<Rightarrow> gateway" where
  "delivered emit_raises uid conns gw =
     gw\<lparr>attempts := attempts gw @ map (\<lambda>sid. (''match_result'', sid)) (list_of_dlist conns),
        active_connections :=
          (active_connections gw)(uid \<mapsto> Dlist.filter (\<lambda>sid. \<not> emit_raises sid) conns)\<rparr>"

text \<open>
  The order the ranked list is said to have: score descending, then member count
  descending, then community id ascending. The merged candidate of a hit that has a
  row. Environments with two local communities whose index returns two hits of one
  score, and two hits in ascending order of score; and environments without local
  communities whose only popular community is the given one.
\<close>

definition ranked_before :: "community \<Rightarrow> community \<Rightarrow> bool" where
  "ranked_before a b =
     (score_of a > score_of b
      \<or> (score_of a = score_of b
          \<and> (member_count a > member_count b
              \<or> (member_count a = member_count b \<and> community_id a \<le> community_id b))))"

definition claimed_ranking :: "community list \<Rightarrow> bool" where
  "claimed_ranking xs = sorted_wrt ranked_before xs"

definition merged_entry :: "community list \<Rightarrow> vector_match \<Rightarrow> community" where
  "merged_entry rows vm =
     (the (community_map rows (the (vm_community_id vm))))\<lparr>match_score := Some (vm_match_score vm)\<rparr>"

definition tie_world :: world where
  "tie_world = quiet_world
     \<lparr>location_rows := (\<lambda>city tz. [row ''T'' ''Art'' 50, row ''S'' ''Art'' 10]),
      index_hits := (\<lambda>v ids. [hit ''S'' 0.7, hit ''T'' 0.7])\<rparr>"

definition unsorted_world :: world where
  "unsorted_world = quiet_world
     \<lparr>location_rows := (\<lambda>city tz. [row ''T'' ''Art'' 50, row ''S'' ''Art'' 10]),
      index_hits := (\<lambda>v ids. [hit ''S'' 0.6, hit ''T'' 0.9])\<rparr>"

definition popular_world :: "string \<Rightarrow> world" where
  "popular_world cid = quiet_world\<lparr>popular_rows := [row cid ''Music'' 900]\<rparr>"










section \<open>Diversity injection\<close>

lemma diversity_loop_found:
  "i \<le> k \<Longrightarrow> k < length xs \<Longrightarrow> category (xs ! k) \<noteq> d
   \<Longrightarrow> (\<forall>j. i \<le> j \<and> j < k \<longrightarrow> category (xs ! j) = d)
   \<Longrightarrow> diversity_loop d i xs = list_insert 2 (xs ! k) (list_pop k xs)"
proof (induction d i xs rule: diversity_loop.induct)
  case (1 d i xs)
  show ?case
  proof (cases "i = k")
    case True
    with 1 show ?thesis by (simp add: diversity_loop.simps)
  next
    case False
    with 1 have "i < k" "category (xs ! i) = d" "i < length xs" by auto
    with 1 show ?thesis by (subst diversity_loop.simps) auto
  qed
qed

lemma diversity_loop_none:
  "(\<forall>j. i \<le> j \<and> j < length xs \<longrightarrow> category (xs ! j) = d) \<Longrightarrow> diversity_loop d i xs = xs"
proof (induction d i xs rule: diversity_loop.induct)
  case (1 d i xs)
  then show ?case by (subst diversity_loop.simps) auto
qed

lemma top3_same:
  assumes "4 \<le> length xs"
  shows "(length (remdups (map category (take 3 xs))) = 1) = top_3_same xs"
proof -
  from assms obtain a b c ys where "xs = a # b # c # ys"
    by (metis Suc_le_length_iff numeral_Bit0 Suc_1 add_2_eq_Suc' eval_nat_numeral(3)) 
  then show ?thesis by (auto simp: top_3_same_def)
qed

lemma first_diverse_props:
  assumes "\<exists>m \<in> set (drop 3 xs). category m \<noteq> category (xs ! 0)"
  shows "first_diverse xs < length xs"
    and "3 \<le> first_diverse xs"
    and "category (xs ! first_diverse xs) \<noteq> category (xs ! 0)"
    and "\<forall>j. 3 \<le> j \<and> j < first_diverse xs \<longrightarrow> category (xs ! j) = category (xs ! 0)"
proof -
  let ?P = "\<lambda>m. category m = category (xs ! 0)"
  let ?ys = "drop 3 xs"
  let ?n = "length (takeWhile ?P ?ys)"
  from assms have ne: "takeWhile ?P ?ys \<noteq> ?ys"
    by (auto simp: takeWhile_eq_all_conv)
  have "takeWhile ?P ?ys = take ?n ?ys" by (rule takeWhile_eq_take)
  with ne have "?n \<noteq> length ?ys" by auto
  moreover have "?n \<le> length ?ys" by (rule length_takeWhile_le)
  ultimately have lt: "?n < length ?ys" by linarith
  then show "first_diverse xs < length xs" by (simp add: first_diverse_def)
  show "3 \<le> first_diverse xs" by (simp add: first_diverse_def)
  from lt have "\<not> ?P (?ys ! ?n)" by (rule nth_length_takeWhile)
  moreover from lt have "?ys ! ?n = xs ! (3 + ?n)" by simp
  ultimately show "category (xs ! first_diverse xs) \<noteq> category (xs ! 0)"
    by (simp add: first_diverse_def)
  show "\<forall>j. 3 \<le> j \<and> j < first_diverse xs \<longrightarrow> category (xs ! j) = category (xs ! 0)"
  proof (intro allI impI)
    fix j assume "3 \<le> j \<and> j < first_diverse xs"
    then have j: "3 \<le> j" "j < 3 + ?n" by (simp_all add: first_diverse_def)
    then have jn: "j - 3 < ?n" by linarith
    then have "takeWhile ?P ?ys ! (j - 3) = ?ys ! (j - 3)" by (rule takeWhile_nth)
    moreover have "takeWhile ?P ?ys ! (j - 3) \<in> set (takeWhile ?P ?ys)" using jn by simp
    then have "?P (takeWhile ?P ?ys ! (j - 3))" by (rule set_takeWhileD[THEN conjunct2])
    moreover have "?ys ! (j - 3) = xs ! j" using j jn lt by simp
    ultimately show "category (xs ! j) = category (xs ! 0)" by simp
  qed
qed

lemma diversity_filter_moves:
  assumes len: "4 \<le> length xs" and same: "top_3_same xs"
    and ex: "\<exists>m \<in> set (drop 3 xs). category m \<noteq> category (xs ! 0)"
  shows "apply_diversity_filter xs =
           take 2 xs @ [xs ! first_diverse xs] @ drop 2 (take (first_diverse xs) xs)
             @ drop (Suc (first_diverse xs)) xs"
proof -
  let ?k = "first_diverse xs"
  note p = first_diverse_props[OF ex]
  have hd: "hd (map category (take 3 xs)) = category (xs ! 0)"
    using len by (cases xs) auto
  have "apply_diversity_filter xs = diversity_loop (category (xs ! 0)) 3 xs"
    using len same top3_same[OF len] hd by (simp add: apply_diversity_filter_def Let_def)
  also have "\<dots> = list_insert 2 (xs ! ?k) (list_pop ?k xs)"
    using p by (intro diversity_loop_found) auto
  also have "\<dots> = take 2 xs @ [xs ! ?k] @ drop 2 (take ?k xs) @ drop (Suc ?k) xs"
    using p by (simp add: list_insert_def list_pop_def min_def)
  finally show ?thesis .
qed

lemma diversity_filter_mset: "mset (apply_diversity_filter xs) = mset xs"
proof (cases "4 \<le> length xs \<and> top_3_same xs \<and> (\<exists>m \<in> set (drop 3 xs). category m \<noteq> category (xs ! 0))")
  case True
  let ?k = "first_diverse xs"
  from True have ex: "\<exists>m \<in> set (drop 3 xs). category m \<noteq> category (xs ! 0)" by simp
  note p = first_diverse_props[OF ex]
  have "mset (take ?k xs @ xs ! ?k # drop (Suc ?k) xs) = mset xs"
    using id_take_nth_drop[OF p(1), symmetric] by (rule arg_cong)
  then have a: "mset xs = mset (take ?k xs) + {#xs ! ?k#} + mset (drop (Suc ?k) xs)"
    by simp
  have "take 2 (take ?k xs) = take 2 xs" using p(2) by (simp add: min_def)
  moreover have "mset (take 2 (take ?k xs) @ drop 2 (take ?k xs)) = mset (take ?k xs)"
    by (simp only: append_take_drop_id)
  ultimately have b: "mset (take ?k xs) = mset (take 2 xs) + mset (drop 2 (take ?k xs))"
    by simp
  from a b have True
    by simp
  show ?thesis using a b True diversity_filter_moves[of xs] by simp
next
  case False
  show ?thesis
  proof (cases "4 \<le> length xs \<and> top_3_same xs")
    case True
    with False have all: "\<forall>j. 3 \<le> j \<and> j < length xs \<longrightarrow> category (xs ! j) = category (xs ! 0)"
    proof (intro allI impI)
      fix j assume j: "3 \<le> j \<and> j < length xs"
      then have "drop 3 xs ! (j - 3) = xs ! j" "j - 3 < length (drop 3 xs)" by auto
      then have "xs ! j \<in> set (drop 3 xs)" by (metis nth_mem)
      with False True show "category (xs ! j) = category (xs ! 0)" by auto
    qed
    have hd: "hd (map category (take 3 xs)) = category (xs ! 0)"
      using True by (cases xs) auto
    have "apply_diversity_filter xs = diversity_loop (category (xs ! 0)) 3 xs"
      using True top3_same[of xs] hd by (simp add: apply_diversity_filter_def Let_def)
    then show ?thesis using diversity_loop_none[OF all] by simp
  next
    case False
    then show ?thesis using top3_same[of xs] by (auto simp: apply_diversity_filter_def Let_def)
  qed
qed

text \<open>
  C1. A list of at least four candidates whose first three share one category and which
  has a later entry of another category: the first such entry (index \<open>k\<close>) is moved to
  index 2, the first three entries of the result have at least two categories, and the
  result is a permutation of the input. A list of fewer than four candidates, or one
  whose first three entries do not share one category, is returned unchanged. The
  candidates A, B, C (Tech), D (Gaming), E (Tech) come back in the order A, B, D, C, E.
\<close>

theorem diversity_filter_spec:
  "(4 \<le> length xs \<and> top_3_same xs \<and> (\<exists>m \<in> set (drop 3 xs). category m \<noteq> category (xs ! 0)) \<longrightarrow>
      (let k = first_diverse xs; ys = apply_diversity_filter xs in
         3 \<le> k \<and> k < length xs \<and> category (xs ! k) \<noteq> category (xs ! 0) \<and>
         (\<forall>j. 3 \<le> j \<and> j < k \<longrightarrow> category (xs ! j) = category (xs ! 0)) \<and>
         ys = take 2 xs @ [xs ! k] @ drop 2 (take k xs) @ drop (Suc k) xs \<and>
         ys ! 2 = xs ! k \<and>
         2 \<le> card (category ` set (take 3 ys)) \<and>
         mset ys = mset xs))
   \<and> (length xs < 4 \<or> \<not> top_3_same xs \<longrightarrow> apply_diversity_filter xs = xs)
   \<and> map community_id (apply_diversity_filter example_candidates) = [''A'', ''B'', ''D'', ''C'', ''E'']"
proof (intro conjI impI)
  assume h: "4 \<le> length xs \<and> top_3_same xs \<and> (\<exists>m \<in> set (drop 3 xs). category m \<noteq> category (xs ! 0))"
  let ?k = "first_diverse xs"
  let ?ys = "apply_diversity_filter xs"
  from h have ex: "\<exists>m \<in> set (drop 3 xs). category m \<noteq> category (xs ! 0)" by simp
  note p = first_diverse_props[OF ex]
  have ys: "?ys = take 2 xs @ [xs ! ?k] @ drop 2 (take ?k xs) @ drop (Suc ?k) xs"
    using h by (intro diversity_filter_moves) auto
  from h have l2: "length (take 2 xs) = 2" by simp
  have n2: "?ys ! 2 = xs ! ?k"
    by (subst ys) (simp add: nth_append l2 del: length_take)
  have t3: "take 3 ?ys = take 2 xs @ [xs ! ?k]"
    by (subst ys) (simp add: l2 del: length_take)
  have "xs ! 0 \<in> set (take 2 xs)" using h by (simp add: in_set_conv_nth) (metis nth_take pos2 l2 length_take)
  then have "{category (xs ! 0), category (xs ! ?k)} \<subseteq> category ` set (take 3 ?ys)"
    by (auto simp: t3)
  then have "card {category (xs ! 0), category (xs ! ?k)} \<le> card (category ` set (take 3 ?ys))"
    by (intro card_mono) auto
  moreover have "card {category (xs ! 0), category (xs ! ?k)} = 2" using p(3) by auto
  ultimately have c: "2 \<le> card (category ` set (take 3 ?ys))" by simp
  show "let k = first_diverse xs; ys = apply_diversity_filter xs in
         3 \<le> k \<and> k < length xs \<and> category (xs ! k) \<noteq> category (xs ! 0) \<and>
         (\<forall>j. 3 \<le> j \<and> j < k \<longrightarrow> category (xs ! j) = category (xs ! 0)) \<and>
         ys = take 2 xs @ [xs ! k] @ drop 2 (take k xs) @ drop (Suc k) xs \<and>
         ys ! 2 = xs ! k \<and>
         2 \<le> card (category ` set (take 3 ys)) \<and>
         mset ys = mset xs"
    unfolding Let_def using p ys[symmetric] n2 c diversity_filter_mset[of xs] by (intro conjI) auto
next
  assume "length xs < 4 \<or> \<not> top_3_same xs"
  then show "apply_diversity_filter xs = xs"
    using top3_same[of xs] by (auto simp: apply_diversity_filter_def Let_def)
next
  show "map community_id (apply_diversity_filter example_candidates) = [''A'', ''B'', ''D'', ''C'', ''E'']"
    by (simp add: example_candidates_def apply_diversity_filter_def candidate_def
          diversity_loop.simps list_insert_def list_pop_def)
qed

theorem diversity_filter_spec_witness:
  "4 \<le> length example_candidates \<and> top_3_same example_candidates
   \<and> (\<exists>m \<in> set (drop 3 example_candidates). category m \<noteq> category (example_candidates ! 0))
   \<and> first_diverse example_candidates = 3
   \<and> apply_diversity_filter example_candidates ! 2 = candidate ''D'' ''Gaming'' 0.86
   \<and> mset (apply_diversity_filter example_candidates) = mset example_candidates
   \<and> \<not> top_3_same mixed_candidates
   \<and> apply_diversity_filter mixed_candidates = mixed_candidates
   \<and> length [candidate ''1'' ''Art'' 0.9] < 4
   \<and> apply_diversity_filter [candidate ''1'' ''Art'' 0.9] = [candidate ''1'' ''Art'' 0.9]"
proof -
  have a: "4 \<le> length example_candidates \<and> top_3_same example_candidates
     \<and> (\<exists>m \<in> set (drop 3 example_candidates). category m \<noteq> category (example_candidates ! 0))"
    by (simp add: example_candidates_def top_3_same_def candidate_def)
  have k: "first_diverse example_candidates = 3"
    by (simp add: example_candidates_def first_diverse_def candidate_def)
  have d: "example_candidates ! 3 = candidate ''D'' ''Gaming'' 0.86"
    by (simp add: example_candidates_def)
  have b: "\<not> top_3_same mixed_candidates"
    by (simp add: mixed_candidates_def top_3_same_def candidate_def)
  have c: "length [candidate ''1'' ''Art'' 0.9] < 4" by simp
  from a diversity_filter_spec[of example_candidates]
  have "apply_diversity_filter example_candidates ! 2
          = example_candidates ! first_diverse example_candidates
     \<and> mset (apply_diversity_filter example_candidates) = mset example_candidates"
    unfolding Let_def by blast
  with k d
  have "apply_diversity_filter example_candidates ! 2 = candidate ''D'' ''Gaming'' 0.86
     \<and> mset (apply_diversity_filter example_candidates) = mset example_candidates"
    by simp
  moreover from b diversity_filter_spec[of mixed_candidates]
  have "apply_diversity_filter mixed_candidates = mixed_candidates" by simp
  moreover from c diversity_filter_spec[of "[candidate ''1'' ''Art'' 0.9]"]
  have "apply_diversity_filter [candidate ''1'' ''Art'' 0.9] = [candidate ''1'' ''Art'' 0.9]" by simp
  ultimately show ?thesis using a k b c by simp
qed


section \<open>Decision engine\<close>

lemma fallback_result_cases:
  "fallback_result w tid uid =
     (if raises w PopularCommunities then Inl (CollaboratorError PopularCommunities)
      else Inr \<lparr>task_id = tid, user_id = uid, tier = FALLBACK,
               matches = map (\<lambda>c. to_community_match c (Some 0)) (take 5 (popular_rows w)),
               auto_joined_community = None, ai_intro_generated = None,
               requires_profile_update = Some True, processing_time_ms = 0\<rparr>)"
  by (simp add: fallback_result_def get_popular_communities_def)

lemma introduction_step_available:
  "\<not> raises w MembersForIntro \<Longrightarrow> \<not> raises w CommunityDetails \<Longrightarrow>
     \<exists>b. introduction_step w bio m = Inr b"
  by (auto simp: introduction_step_def get_community_members_for_intro_def
        get_community_details_def Let_def split: if_splits prod.splits)

lemma soulmate_branch:
  assumes "match_score m = Some s" "s > 0.87"
  shows "apply_decision_engine w st tid uid bio (m # ms) =
     (case auto_join_community w st uid (community_id m) of
        (st', Inl e) \<Rightarrow> (st', Inl e)
      | (st', Inr joined) \<Rightarrow>
          (case (if joined then introduction_step w bio m else Inr False) of
             Inl e \<Rightarrow> (st', Inl e)
           | Inr b \<Rightarrow>
               (st', Inr \<lparr>task_id = tid, user_id = uid, tier = SOULMATE,
                         matches = [to_community_match m None],
                         auto_joined_community = Some (community_id m),
                         ai_intro_generated = Some b,
                         requires_profile_update = None,
                         processing_time_ms = 0\<rparr>)))"
  using assms by (simp add: apply_decision_engine_def)

lemma explorer_branch:
  assumes "match_score m = Some s" "0.55 \<le> s" "s \<le> 0.87"
  shows "apply_decision_engine w st tid uid bio (m # ms) =
     (st, Inr \<lparr>task_id = tid, user_id = uid, tier = EXPLORER,
               matches = map (\<lambda>c. to_community_match c None) (take 5 (m # ms)),
               auto_joined_community = None, ai_intro_generated = None,
               requires_profile_update = None, processing_time_ms = 0\<rparr>)"
  using assms by (simp add: apply_decision_engine_def)

lemma fallback_branch:
  assumes "match_score m = Some s" "s < 0.55"
  shows "apply_decision_engine w st tid uid bio (m # ms) = (st, fallback_result w tid uid)"
  using assms by (simp add: apply_decision_engine_def)

lemma empty_branch:
  "apply_decision_engine w st tid uid bio [] = (st, fallback_result w tid uid)"
  by (simp add: apply_decision_engine_def)

text \<open>
  C2. A non-empty ranked list whose top score is \<open>s\<close>: above 0.87 the result is Soulmate;
  from 0.55 to 0.87, both ends included, it is Explorer, with the first min(5, length)
  entries as matches and no profile update request passed; below 0.55 it is Fallback;
  the empty list is Fallback. The engine produces a result whenever the collaborator
  calls of the branch answer (the join and the two queries of the introduction for
  Soulmate, the popular-communities query for Fallback, none for Explorer), and a run
  that raises has no tier. The scores 0.87 and 0.55 are Explorer, 0.549999 is Fallback.
\<close>

theorem decision_engine_tiers:
  "(match_score m = Some s \<and> s > 0.87 \<longrightarrow>
      tier_of (apply_decision_engine w st tid uid bio (m # ms)) \<in> {None, Some SOULMATE}
      \<and> (available w [AutoJoin, MembersForIntro, CommunityDetails] \<longrightarrow>
           tier_of (apply_decision_engine w st tid uid bio (m # ms)) = Some SOULMATE))
   \<and> (match_score m = Some s \<and> 0.55 \<le> s \<and> s \<le> 0.87 \<longrightarrow>
        apply_decision_engine w st tid uid bio (m # ms) =
          (st, Inr \<lparr>task_id = tid, user_id = uid, tier = EXPLORER,
                    matches = map (\<lambda>c. to_community_match c None)
                                (take (min 5 (length (m # ms))) (m # ms)),
                    auto_joined_community = None, ai_intro_generated = None,
                    requires_profile_update = None, processing_time_ms = 0\<rparr>))
   \<and> (match_score m = Some s \<and> s < 0.55 \<longrightarrow>
        tier_of (apply_decision_engine w st tid uid bio (m # ms)) \<in> {None, Some FALLBACK}
        \<and> (available w [PopularCommunities] \<longrightarrow>
             tier_of (apply_decision_engine w st tid uid bio (m # ms)) = Some FALLBACK))
   \<and> tier_of (apply_decision_engine w st tid uid bio []) \<in> {None, Some FALLBACK}
   \<and> (available w [PopularCommunities] \<longrightarrow>
        tier_of (apply_decision_engine w st tid uid bio []) = Some FALLBACK)
   \<and> tier_of (apply_decision_engine w st tid uid bio (candidate ''A'' ''Tech'' 0.87 # ms))
        = Some EXPLORER
   \<and> tier_of (apply_decision_engine w st tid uid bio (candidate ''A'' ''Tech'' 0.55 # ms))
        = Some EXPLORER
   \<and> (available w [PopularCommunities] \<longrightarrow>
        tier_of (apply_decision_engine w st tid uid bio (candidate ''A'' ''Tech'' 0.549999 # ms))
          = Some FALLBACK)"
proof (intro conjI impI)
  assume h: "match_score m = Some s \<and> s > 0.87"
  then have eq: "apply_decision_engine w st tid uid bio (m # ms) = 
     (case auto_join_community w st uid (community_id m) of
        (st', Inl e) \<Rightarrow> (st', Inl e)
      | (st', Inr joined) \<Rightarrow>
          (case (if joined then introduction_step w bio m else Inr False) of
             Inl e \<Rightarrow> (st', Inl e)
           | Inr b \<Rightarrow>
               (st', Inr \<lparr>task_id = tid, user_id = uid, tier = SOULMATE,
                         matches = [to_community_match m None],
                         auto_joined_community = Some (community_id m),
                         ai_intro_generated = Some b,
                         requires_profile_update = None,
                         processing_time_ms = 0\<rparr>)))"
    by (intro soulmate_branch) auto
  show "tier_of (apply_decision_engine w st tid uid bio (m # ms)) \<in> {None, Some SOULMATE}"
    unfolding eq by (auto simp: tier_of_def split: prod.splits sum.splits)
  assume "available w [AutoJoin, MembersForIntro, CommunityDetails]"
  then have a: "\<not> raises w AutoJoin" "\<not> raises w MembersForIntro" "\<not> raises w CommunityDetails"
    by (simp_all add: available_def)
  from introduction_step_available[OF a(2,3)] obtain b where b: "introduction_step w bio m = Inr b"
    by blast
  show "tier_of (apply_decision_engine w st tid uid bio (m # ms)) = Some SOULMATE"
    unfolding eq using a(1) b by (simp add: tier_of_def auto_join_community_def)
next
  assume h: "match_score m = Some s \<and> 0.55 \<le> s \<and> s \<le> 0.87"
  have "take (min 5 (length (m # ms))) (m # ms) = take 5 (m # ms)"
    by (simp add: min_def)
  then show "apply_decision_engine w st tid uid bio (m # ms) =
          (st, Inr \<lparr>task_id = tid, user_id = uid, tier = EXPLORER,
                    matches = map (\<lambda>c. to_community_match c None)
                                (take (min 5 (length (m # ms))) (m # ms)),
                    auto_joined_community = None, ai_intro_generated = None,
                    requires_profile_update = None, processing_time_ms = 0\<rparr>)"
    using h explorer_branch[of m s w st tid uid bio ms] by simp
next
  assume h: "match_score m = Some s \<and> s < 0.55"
  then have eq: "apply_decision_engine w st tid uid bio (m # ms) = (st, fallback_result w tid uid)"
    by (intro fallback_branch) auto
  show "tier_of (apply_decision_engine w st tid uid bio (m # ms)) \<in> {None, Some FALLBACK}"
    unfolding eq by (simp add: tier_of_def fallback_result_cases)
  assume "available w [PopularCommunities]"
  then show "tier_of (apply_decision_engine w st tid uid bio (m # ms)) = Some FALLBACK"
    unfolding eq by (simp add: tier_of_def fallback_result_cases available_def)
next
  show "tier_of (apply_decision_engine w st tid uid bio []) \<in> {None, Some FALLBACK}"
    by (simp add: empty_branch tier_of_def fallback_result_cases)
next
  assume "available w [PopularCommunities]"
  then show "tier_of (apply_decision_engine w st tid uid bio []) = Some FALLBACK"
    by (simp add: empty_branch tier_of_def fallback_result_cases available_def)
next
  show "tier_of (apply_decision_engine w st tid uid bio (candidate ''A'' ''Tech'' 0.87 # ms))
        = Some EXPLORER"
    by (simp add: apply_decision_engine_def candidate_def tier_of_def)
next
  show "tier_of (apply_decision_engine w st tid uid bio (candidate ''A'' ''Tech'' 0.55 # ms))
        = Some EXPLORER"
    by (simp add: apply_decision_engine_def candidate_def tier_of_def)
next
  assume "available w [PopularCommunities]"
  then show "tier_of (apply_decision_engine w st tid uid bio (candidate ''A'' ''Tech'' 0.549999 # ms))
          = Some FALLBACK"
    by (simp add: apply_decision_engine_def candidate_def tier_of_def fallback_result_cases available_def)
qed

theorem decision_engine_tiers_witness:
  "match_score (candidate ''A'' ''Tech'' 0.9) = Some 0.9 \<and> (0.9::real) > 0.87
   \<and> available quiet_world [AutoJoin, MembersForIntro, CommunityDetails]
   \<and> tier_of (apply_decision_engine quiet_world empty_store ''t'' ''u'' ''bio''
                 [candidate ''A'' ''Tech'' 0.9]) = Some SOULMATE
   \<and> match_score (candidate ''B'' ''Art'' 0.7) = Some 0.7 \<and> (0.55::real) \<le> 0.7 \<and> (0.7::real) \<le> 0.87
   \<and> tier_of (apply_decision_engine quiet_world empty_store ''t'' ''u'' ''bio''
                 [candidate ''B'' ''Art'' 0.7, candidate ''C'' ''Art'' 0.6]) = Some EXPLORER
   \<and> match_score (candidate ''C'' ''Art'' 0.3) = Some 0.3 \<and> (0.3::real) < 0.55
   \<and> available quiet_world [PopularCommunities]
   \<and> tier_of (apply_decision_engine quiet_world empty_store ''t'' ''u'' ''bio''
                 [candidate ''C'' ''Art'' 0.3]) = Some FALLBACK"
proof -
  have a: "match_score (candidate ''A'' ''Tech'' 0.9) = Some 0.9 \<and> (0.9::real) > 0.87"
    by (simp add: candidate_def)
  have b: "available quiet_world [AutoJoin, MembersForIntro, CommunityDetails]"
    by (simp add: available_def quiet_world_def)
  have c: "match_score (candidate ''B'' ''Art'' 0.7) = Some 0.7 \<and> (0.55::real) \<le> 0.7 \<and> (0.7::real) \<le> 0.87"
    by (simp add: candidate_def)
  have d: "match_score (candidate ''C'' ''Art'' 0.3) = Some 0.3 \<and> (0.3::real) < 0.55"
    by (simp add: candidate_def)
  have e: "available quiet_world [PopularCommunities]"
    by (simp add: available_def quiet_world_def)
  from a b decision_engine_tiers[where m = "candidate ''A'' ''Tech'' 0.9" and s = "0.9"
      and w = quiet_world and st = empty_store and tid = "''t''" and uid = "''u''"
      and bio = "''bio''" and ms = "[]"]
  have 1: "tier_of (apply_decision_engine quiet_world empty_store ''t'' ''u'' ''bio''
                 [candidate ''A'' ''Tech'' 0.9]) = Some SOULMATE" by blast
  from c decision_engine_tiers[where m = "candidate ''B'' ''Art'' 0.7" and s = "0.7"
      and w = quiet_world and st = empty_store and tid = "''t''" and uid = "''u''"
      and bio = "''bio''" and ms = "[candidate ''C'' ''Art'' 0.6]"]
  have "apply_decision_engine quiet_world empty_store ''t'' ''u'' ''bio''
          [candidate ''B'' ''Art'' 0.7, candidate ''C'' ''Art'' 0.6] =
          (empty_store, Inr \<lparr>task_id = ''t'', user_id = ''u'', tier = EXPLORER,
                    matches = map (\<lambda>c. to_community_match c None)
                                (take (min 5 (length [candidate ''B'' ''Art'' 0.7, candidate ''C'' ''Art'' 0.6]))
                                   [candidate ''B'' ''Art'' 0.7, candidate ''C'' ''Art'' 0.6]),
                    auto_joined_community = None, ai_intro_generated = None,
                    requires_profile_update = None, processing_time_ms = 0\<rparr>)" by blast
  then have 2: "tier_of (apply_decision_engine quiet_world empty_store ''t'' ''u'' ''bio''
                 [candidate ''B'' ''Art'' 0.7, candidate ''C'' ''Art'' 0.6]) = Some EXPLORER"
    by (simp add: tier_of_def)
  from d e decision_engine_tiers[where m = "candidate ''C'' ''Art'' 0.3" and s = "0.3"
      and w = quiet_world and st = empty_store and tid = "''t''" and uid = "''u''"
      and bio = "''bio''" and ms = "[]"]
  have 3: "tier_of (apply_decision_engine quiet_world empty_store ''t'' ''u'' ''bio''
                 [candidate ''C'' ''Art'' 0.3]) = Some FALLBACK" by blast
  from a b c d e 1 2 3 show ?thesis by blast
qed

lemma introduction_step_Inr:
  "introduction_step w bio m = Inr b \<Longrightarrow> b = (intro_toxicity w bio m < 0.75)"
  by (auto simp: introduction_step_def get_community_members_for_intro_def
        get_community_details_def intro_toxicity_def Let_def split: if_splits prod.splits)

lemma auto_join_members:
  "\<not> raises w AutoJoin \<Longrightarrow>
     auto_join_community w st uid cid =
       (st\<lparr>community_members := insert (uid, cid) (community_members st)\<rparr>,
        Inr ((uid, cid) \<notin> community_members st))"
  by (simp add: auto_join_community_def)

lemma auto_join_raises:
  "raises w AutoJoin \<Longrightarrow> auto_join_community w st uid cid = (st, Inl (CollaboratorError AutoJoin))"
  by (simp add: auto_join_community_def)

lemma engine_Cons_soulmate:
  assumes "apply_decision_engine w st tid uid bio (m # ms) = (st', Inr r)" "tier r = SOULMATE"
  shows "\<exists>s. match_score m = Some s \<and> s > 0.87"
proof (cases "match_score m")
  case None
  with assms show ?thesis by (simp add: apply_decision_engine_def)
next
  case (Some s)
  show ?thesis
  proof (cases "s > 0.87")
    case True
    with Some show ?thesis by simp
  next
    case False
    with Some assms show ?thesis
      by (auto simp: apply_decision_engine_def fallback_result_cases split: if_splits)
  qed
qed

lemma soulmate_result:
  assumes ms: "match_score m = Some s" "s > 0.87"
    and out: "apply_decision_engine w st tid uid bio (m # ms) = (st', Inr r)"
  shows "\<not> raises w AutoJoin"
    and "st' = st\<lparr>community_members := insert (uid, community_id m) (community_members st)\<rparr>"
    and "r = \<lparr>task_id = tid, user_id = uid, tier = SOULMATE,
              matches = [to_community_match m None],
              auto_joined_community = Some (community_id m),
              ai_intro_generated =
                Some ((uid, community_id m) \<notin> community_members st \<and> intro_toxicity w bio m < 0.75),
              requires_profile_update = None, processing_time_ms = 0\<rparr>"
proof -
  note eq = soulmate_branch[OF ms, of w st tid uid bio ms]
  show nr: "\<not> raises w AutoJoin"
    using out unfolding eq by (auto simp: auto_join_raises)
  note aj = auto_join_members[OF nr, of st uid "community_id m"]
  show "st' = st\<lparr>community_members := insert (uid, community_id m) (community_members st)\<rparr>"
    using out unfolding eq aj by (auto split: sum.splits if_splits)
  show "r = \<lparr>task_id = tid, user_id = uid, tier = SOULMATE,
              matches = [to_community_match m None],
              auto_joined_community = Some (community_id m),
              ai_intro_generated =
                Some ((uid, community_id m) \<notin> community_members st \<and> intro_toxicity w bio m < 0.75),
              requires_profile_update = None, processing_time_ms = 0\<rparr>"
    using out unfolding eq aj
    by (auto split: sum.splits if_splits dest: introduction_step_Inr)
qed

lemma soulmate_join_stands:
  assumes ms: "match_score m = Some s" "s > 0.87" and nr: "\<not> raises w AutoJoin"
  shows "community_members (fst (apply_decision_engine w st tid uid bio (m # ms)))
           = insert (uid, community_id m) (community_members st)"
  unfolding soulmate_branch[OF ms] auto_join_members[OF nr]
  by (auto split: sum.splits)

text \<open>
  C5. Every Soulmate result has a top score above 0.87, holds exactly the top entry as
  its matches and that entry's id as \<open>auto_joined_community\<close>; the membership has been
  entered in the store, and \<open>ai_intro_generated\<close> is true exactly when the join reported
  a new membership and the toxicity of the introduction is below 0.75. The empty list
  is never Soulmate. Whatever the introduction step does (also when one of its calls
  raises and the engine fails), the membership is in the store once the join has
  answered. A second join of the same pair changes nothing and reports False.
\<close>

theorem soulmate_outcome:
  "(apply_decision_engine w st tid uid bio (m # ms) = (st', Inr r) \<and> tier r = SOULMATE \<longrightarrow>
      (\<exists>s. match_score m = Some s \<and> s > 0.87 \<and> cm_match_score (hd (matches r)) = s)
      \<and> matches r = [to_community_match m None]
      \<and> auto_joined_community r = Some (community_id m)
      \<and> community_members st' = insert (uid, community_id m) (community_members st)
      \<and> ai_intro_generated r =
          Some ((uid, community_id m) \<notin> community_members st \<and> intro_toxicity w bio m < 0.75))
   \<and> tier_of (apply_decision_engine w st tid uid bio []) \<noteq> Some SOULMATE
   \<and> (match_score m = Some s \<and> s > 0.87 \<and> \<not> raises w AutoJoin \<longrightarrow>
        community_members (fst (apply_decision_engine w st tid uid bio (m # ms)))
          = insert (uid, community_id m) (community_members st))
   \<and> (\<not> raises w AutoJoin \<longrightarrow>
        auto_join_community w (fst (auto_join_community w st uid cid)) uid cid
          = (fst (auto_join_community w st uid cid), Inr False))"
proof (intro conjI impI)
  assume h: "apply_decision_engine w st tid uid bio (m # ms) = (st', Inr r) \<and> tier r = SOULMATE"
  then obtain s where s: "match_score m = Some s" "s > 0.87"
    using engine_Cons_soulmate[of w st tid uid bio m ms st' r] by blast
  from h have out: "apply_decision_engine w st tid uid bio (m # ms) = (st', Inr r)" by simp
  note res = soulmate_result[OF s out]
  show "\<exists>s. match_score m = Some s \<and> s > 0.87 \<and> cm_match_score (hd (matches r)) = s"
    using s res(3) by (simp add: to_community_match_def)
  show "matches r = [to_community_match m None]" using res(3) by simp
  show "auto_joined_community r = Some (community_id m)" using res(3) by simp
  show "community_members st' = insert (uid, community_id m) (community_members st)"
    using res(2) by simp
  show "ai_intro_generated r =
          Some ((uid, community_id m) \<notin> community_members st \<and> intro_toxicity w bio m < 0.75)"
    using res(3) by simp
next
  show "tier_of (apply_decision_engine w st tid uid bio []) \<noteq> Some SOULMATE"
    by (simp add: empty_branch tier_of_def fallback_result_cases)
next
  assume "match_score m = Some s \<and> s > 0.87 \<and> \<not> raises w AutoJoin"
  then show "community_members (fst (apply_decision_engine w st tid uid bio (m # ms)))
          = insert (uid, community_id m) (community_members st)"
    by (intro soulmate_join_stands) auto
next
  assume "\<not> raises w AutoJoin"
  then show "auto_join_community w (fst (auto_join_community w st uid cid)) uid cid
          = (fst (auto_join_community w st uid cid), Inr False)"
    by (simp add: auto_join_community_def insert_absorb)
qed

lemma quiet_soulmate:
  "apply_decision_engine quiet_world empty_store ''t'' ''u'' ''bio'' [candidate ''A'' ''Tech'' 0.9]
     = (member_store, Inr (soulmate_result_A True))"
  by (simp add: apply_decision_engine_def candidate_def quiet_world_def empty_store_def
        member_store_def soulmate_result_A_def auto_join_community_def introduction_step_def
        get_community_members_for_intro_def get_community_details_def
        generate_ai_introduction_def check_toxicity_def to_community_match_def Let_def)

theorem soulmate_outcome_witness:
  "apply_decision_engine quiet_world empty_store ''t'' ''u'' ''bio'' [candidate ''A'' ''Tech'' 0.9]
     = (member_store, Inr (soulmate_result_A True))
   \<and> tier (soulmate_result_A True) = SOULMATE
   \<and> auto_joined_community (soulmate_result_A True) = Some ''A''
   \<and> community_members member_store = insert (''u'', ''A'') (community_members empty_store)
   \<and> match_score (candidate ''A'' ''Tech'' 0.9) = Some 0.9 \<and> (0.9::real) > 0.87
   \<and> \<not> raises quiet_world AutoJoin
   \<and> (''u'', ''A'') \<in> community_members (fst (apply_decision_engine quiet_world empty_store
          ''t'' ''u'' ''bio'' [candidate ''A'' ''Tech'' 0.9]))
   \<and> auto_join_community quiet_world member_store ''u'' ''A'' = (member_store, Inr False)"
proof -
  have a: "apply_decision_engine quiet_world empty_store ''t'' ''u'' ''bio'' [candidate ''A'' ''Tech'' 0.9]
     = (member_store, Inr (soulmate_result_A True)) \<and> tier (soulmate_result_A True) = SOULMATE"
    by (simp add: quiet_soulmate) (simp add: soulmate_result_A_def)
  have b: "match_score (candidate ''A'' ''Tech'' 0.9) = Some 0.9 \<and> (0.9::real) > 0.87
      \<and> \<not> raises quiet_world AutoJoin"
    by (simp add: candidate_def quiet_world_def)
  have c: "community_id (candidate ''A'' ''Tech'' 0.9) = ''A''" by (simp add: candidate_def)
  have d: "fst (auto_join_community quiet_world empty_store ''u'' ''A'') = member_store"
    by (simp add: auto_join_community_def quiet_world_def member_store_def empty_store_def)
  note t = soulmate_outcome[where w = quiet_world and st = empty_store and tid = "''t''"
      and uid = "''u''" and bio = "''bio''" and m = "candidate ''A'' ''Tech'' 0.9" and ms = "[]"
      and st' = member_store and r = "soulmate_result_A True" and s = "0.9" and cid = "''A''"]
  from t a have 1: "auto_joined_community (soulmate_result_A True)
      = Some (community_id (candidate ''A'' ''Tech'' 0.9))
    \<and> community_members member_store
      = insert (''u'', community_id (candidate ''A'' ''Tech'' 0.9)) (community_members empty_store)"
    by blast
  from t b have 2: "community_members (fst (apply_decision_engine quiet_world empty_store
          ''t'' ''u'' ''bio'' [candidate ''A'' ''Tech'' 0.9]))
      = insert (''u'', community_id (candidate ''A'' ''Tech'' 0.9)) (community_members empty_store)"
    by blast
  from t b have 3: "auto_join_community quiet_world
        (fst (auto_join_community quiet_world empty_store ''u'' ''A'')) ''u'' ''A''
      = (fst (auto_join_community quiet_world empty_store ''u'' ''A''), Inr False)"
    by blast
  from a b 1 2 3 show ?thesis unfolding c d by simp
qed

text \<open>
  C10 as stated fails: the moderation call raises, user u already is a member of
  community A, and the Soulmate result has \<open>ai_intro_generated\<close> false.
\<close>

theorem moderation_outage_counterexample:
  "raises outage_world Moderation
   \<and> apply_decision_engine outage_world member_store ''t'' ''u'' ''bio''
       [candidate ''A'' ''Tech'' 0.9] = (member_store, Inr (soulmate_result_A False))
   \<and> tier (soulmate_result_A False) = SOULMATE
   \<and> ai_intro_generated (soulmate_result_A False) \<noteq> Some True"
  by (simp add: apply_decision_engine_def candidate_def quiet_world_def empty_store_def
        outage_world_def member_store_def soulmate_result_A_def auto_join_community_def
        to_community_match_def insert_absorb)

text \<open>
  C10, amended. When the moderation call raises, the toxicity check returns 0.0; when
  the chat call of the introduction raises, the fallback introduction comes back with
  toxicity 0.0. A Soulmate result produced while either call raises has
  \<open>ai_intro_generated\<close> true exactly when the join reported a new membership: the gate
  passes by default, but for a user who already is a member no introduction is asked
  for and the flag is false.
\<close>

theorem moderation_outage:
  "(raises w Moderation \<longrightarrow> check_toxicity w intro_text = 0)
   \<and> (raises w ChatIntro \<longrightarrow>
        generate_ai_introduction w bio cname cdesc members
          = (''Welcome to '' @ cname @ ''! We're excited to have you here.'', None, 0))
   \<and> ((raises w Moderation \<or> raises w ChatIntro)
        \<and> apply_decision_engine w st tid uid bio (m # ms) = (st', Inr r) \<and> tier r = SOULMATE \<longrightarrow>
        ai_intro_generated r = Some ((uid, community_id m) \<notin> community_members st))"
proof (intro conjI impI)
  assume "raises w Moderation"
  then show "check_toxicity w intro_text = 0" by (simp add: check_toxicity_def)
next
  assume "raises w ChatIntro"
  then show "generate_ai_introduction w bio cname cdesc members
          = (''Welcome to '' @ cname @ ''! We're excited to have you here.'', None, 0)"
    by (simp add: generate_ai_introduction_def)
next
  assume h: "(raises w Moderation \<or> raises w ChatIntro)
        \<and> apply_decision_engine w st tid uid bio (m # ms) = (st', Inr r) \<and> tier r = SOULMATE"
  then obtain s where s: "match_score m = Some s" "s > 0.87"
    using engine_Cons_soulmate[of w st tid uid bio m ms st' r] by blast
  from h have out: "apply_decision_engine w st tid uid bio (m # ms) = (st', Inr r)" by simp
  from h have "intro_toxicity w bio m = 0"
    by (auto simp: intro_toxicity_def generate_ai_introduction_def check_toxicity_def Let_def)
  then show "ai_intro_generated r = Some ((uid, community_id m) \<notin> community_members st)"
    using soulmate_result(3)[OF s out] by simp
qed

theorem moderation_outage_witness:
  "raises outage_world Moderation
   \<and> check_toxicity outage_world ''Hello'' = 0
   \<and> apply_decision_engine outage_world empty_store ''t'' ''u'' ''bio''
       [candidate ''A'' ''Tech'' 0.9] = (member_store, Inr (soulmate_result_A True))
   \<and> tier (soulmate_result_A True) = SOULMATE
   \<and> ai_intro_generated (soulmate_result_A True) = Some True
   \<and> raises (quiet_world\<lparr>raises := (\<lambda>c. c = ChatIntro)\<rparr>) ChatIntro
   \<and> generate_ai_introduction (quiet_world\<lparr>raises := (\<lambda>c. c = ChatIntro)\<rparr>) ''bio'' ''A'' [] []
       = (''Welcome to A! We're excited to have you here.'', None, 0)"
proof -
  have a: "raises outage_world Moderation" by (simp add: outage_world_def)
  have b: "apply_decision_engine outage_world empty_store ''t'' ''u'' ''bio''
       [candidate ''A'' ''Tech'' 0.9] = (member_store, Inr (soulmate_result_A True))"
    by (simp add: apply_decision_engine_def candidate_def quiet_world_def empty_store_def
        outage_world_def member_store_def soulmate_result_A_def auto_join_community_def
        introduction_step_def get_community_members_for_intro_def get_community_details_def
        generate_ai_introduction_def check_toxicity_def to_community_match_def Let_def)
  have c: "tier (soulmate_result_A True) = SOULMATE" by (simp add: soulmate_result_A_def)
  have d: "raises (quiet_world\<lparr>raises := (\<lambda>c. c = ChatIntro)\<rparr>) ChatIntro" by simp
  have e: "(''u'', community_id (candidate ''A'' ''Tech'' 0.9)) \<notin> community_members empty_store"
    by (simp add: empty_store_def)
  note t = moderation_outage[where w = outage_world and st = empty_store and tid = "''t''"
      and uid = "''u''" and bio = "''bio''" and m = "candidate ''A'' ''Tech'' 0.9" and ms = "[]"
      and st' = member_store and r = "soulmate_result_A True" and intro_text = "''Hello''"]
  from t a have 1: "check_toxicity outage_world ''Hello'' = 0" by blast
  from t a b c have "ai_intro_generated (soulmate_result_A True)
      = Some ((''u'', community_id (candidate ''A'' ''Tech'' 0.9)) \<notin> community_members empty_store)"
    by blast
  with e have 2: "ai_intro_generated (soulmate_result_A True) = Some True" by simp
  from d moderation_outage[where w = "quiet_world\<lparr>raises := (\<lambda>c. c = ChatIntro)\<rparr>"
      and bio = "''bio''" and cname = "''A''" and cdesc = "[]" and members = "[]"]
  have 3: "generate_ai_introduction (quiet_world\<lparr>raises := (\<lambda>c. c = ChatIntro)\<rparr>) ''bio'' ''A'' [] []
       = (''Welcome to '' @ ''A'' @ ''! We're excited to have you here.'', None, 0)" by blast
  from a b c d 1 2 3 show ?thesis by simp
qed


section \<open>Hybrid matcher\<close>

lemma community_map_Some:
  "community_map rows cid = Some c \<Longrightarrow> c \<in> set rows \<and> community_id c = cid"
  by (auto simp: community_map_def dest!: map_of_SomeD)

lemma community_map_None:
  "(community_map rows cid = None) = (cid \<notin> community_id ` set rows)"
  by (simp add: community_map_def map_of_eq_None_iff image_image)

lemma enrich_matches_entry:
  "e \<in> set (enrich_matches cmap vms) \<Longrightarrow>
     \<exists>vm \<in> set vms. \<exists>c. vm_community_id vm = Some (community_id e) \<and>
        cmap (community_id e) = Some c \<and>
        e = c\<lparr>community_id := community_id e, match_score := Some (vm_match_score vm)\<rparr>"
  by (induction vms) (auto split: option.splits)

lemma enrich_matches_ids:
  "map (\<lambda>e. Some (community_id e)) (enrich_matches (community_map rows) vms)
     = map vm_community_id (filter (kept rows) vms)"
  by (induction vms) (auto simp: kept_def community_map_None[symmetric] split: option.splits)

lemma enrich_matches_scores:
  "map score_of (enrich_matches (community_map rows) vms)
     = map vm_match_score (filter (kept rows) vms)"
  by (induction vms) (auto simp: kept_def score_of_def community_map_None[symmetric] split: option.splits)

lemma hybrid_merged:
  assumes "\<not> raises w FilterByLocation" "\<not> raises w VectorSearch" "stage1 w city tz \<noteq> []"
  shows "hybrid_matching_algorithm w v city tz =
     Inr (apply_diversity_filter
            (enrich_matches (community_map (stage1 w city tz)) (hits w v city tz)))"
  using assms
  by (simp add: hybrid_matching_algorithm_def filter_communities_by_location_def
        vector_search_def stage1_def hits_def Let_def)

lemma example_world_hybrid:
  "hybrid_matching_algorithm example_world [1, 0] ''Pune'' ''Asia/Kolkata'' = Inr example_output"
  by (simp add: hybrid_matching_algorithm_def filter_communities_by_location_def
        vector_search_def example_world_def quiet_world_def community_map_def row_def hit_def
        scored_def example_output_def apply_diversity_filter_def diversity_loop.simps
        list_insert_def list_pop_def Let_def)

text \<open>
  C9. When the locality filter returns rows and the similarity search answers, every
  entry of the matcher's output is a row of the locality filter with the score of a hit
  of the same id merged onto it, so no entry has an id absent from the rows; and the ids
  of the output are, as a multiset, the ids of exactly the hits that have a row: a hit
  without one contributes nothing.
\<close>

theorem merge_drops_stale_hits:
  "\<not> raises w FilterByLocation \<and> \<not> raises w VectorSearch \<and> stage1 w city tz \<noteq> [] \<longrightarrow>
     (\<exists>out. hybrid_matching_algorithm w v city tz = Inr out \<and>
        (\<forall>e \<in> set out. \<exists>c \<in> set (stage1 w city tz). \<exists>vm \<in> set (hits w v city tz).
            community_id c = community_id e \<and> vm_community_id vm = Some (community_id e) \<and>
            e = c\<lparr>match_score := Some (vm_match_score vm)\<rparr>) \<and>
        mset (map (\<lambda>e. Some (community_id e)) out)
          = mset (map vm_community_id (filter (kept (stage1 w city tz)) (hits w v city tz))))"
proof
  assume h: "\<not> raises w FilterByLocation \<and> \<not> raises w VectorSearch \<and> stage1 w city tz \<noteq> []"
  let ?rows = "stage1 w city tz"
  let ?merged = "enrich_matches (community_map ?rows) (hits w v city tz)"
  let ?out = "apply_diversity_filter ?merged"
  from h have out: "hybrid_matching_algorithm w v city tz = Inr ?out"
    by (intro hybrid_merged) auto
  have m: "mset ?out = mset ?merged" by (rule diversity_filter_mset)
  then have s: "set ?out = set ?merged" by (rule mset_eq_setD)
  have 1: "\<forall>e \<in> set ?out. \<exists>c \<in> set ?rows. \<exists>vm \<in> set (hits w v city tz).
            community_id c = community_id e \<and> vm_community_id vm = Some (community_id e) \<and>
            e = c\<lparr>match_score := Some (vm_match_score vm)\<rparr>"
  proof
    fix e assume "e \<in> set ?out"
    with s have "e \<in> set ?merged" by simp
    then obtain vm c where vm: "vm \<in> set (hits w v city tz)"
      "vm_community_id vm = Some (community_id e)"
      "community_map ?rows (community_id e) = Some c"
      "e = c\<lparr>community_id := community_id e, match_score := Some (vm_match_score vm)\<rparr>"
      using enrich_matches_entry by blast
    from community_map_Some[OF vm(3)] have c: "c \<in> set ?rows" "community_id c = community_id e"
      by auto
    from vm(4) c(2) have "e = c\<lparr>match_score := Some (vm_match_score vm)\<rparr>"
      by (metis community.surjective community.update_convs(1) community.update_convs(4))
    with vm c show "\<exists>c \<in> set ?rows. \<exists>vm \<in> set (hits w v city tz).
            community_id c = community_id e \<and> vm_community_id vm = Some (community_id e) \<and>
            e = c\<lparr>match_score := Some (vm_match_score vm)\<rparr>" by blast
  qed
  have "mset (map (\<lambda>e. Some (community_id e)) ?out) = mset (map (\<lambda>e. Some (community_id e)) ?merged)"
    using m by (metis mset_map)
  then have 2: "mset (map (\<lambda>e. Some (community_id e)) ?out)
          = mset (map vm_community_id (filter (kept ?rows) (hits w v city tz)))"
    by (simp only: enrich_matches_ids)
  from out 1 2 show "\<exists>out. hybrid_matching_algorithm w v city tz = Inr out \<and>
        (\<forall>e \<in> set out. \<exists>c \<in> set (stage1 w city tz). \<exists>vm \<in> set (hits w v city tz).
            community_id c = community_id e \<and> vm_community_id vm = Some (community_id e) \<and>
            e = c\<lparr>match_score := Some (vm_match_score vm)\<rparr>) \<and>
        mset (map (\<lambda>e. Some (community_id e)) out)
          = mset (map vm_community_id (filter (kept (stage1 w city tz)) (hits w v city tz)))"
    by blast
qed

theorem merge_drops_stale_hits_witness:
  "\<not> raises example_world FilterByLocation \<and> \<not> raises example_world VectorSearch
   \<and> stage1 example_world ''Pune'' ''Asia/Kolkata'' \<noteq> []
   \<and> hit ''Z'' 0.88 \<in> set (hits example_world [1, 0] ''Pune'' ''Asia/Kolkata'')
   \<and> \<not> kept (stage1 example_world ''Pune'' ''Asia/Kolkata'') (hit ''Z'' 0.88)
   \<and> hybrid_matching_algorithm example_world [1, 0] ''Pune'' ''Asia/Kolkata'' = Inr example_output
   \<and> mset (map (\<lambda>e. Some (community_id e)) example_output)
       = {#Some ''A'', Some ''B'', Some ''C'', Some ''D'', Some ''E''#}"
proof -
  have a: "\<not> raises example_world FilterByLocation \<and> \<not> raises example_world VectorSearch
      \<and> stage1 example_world ''Pune'' ''Asia/Kolkata'' \<noteq> []"
    by (simp add: example_world_def quiet_world_def stage1_def)
  have b: "hit ''Z'' 0.88 \<in> set (hits example_world [1, 0] ''Pune'' ''Asia/Kolkata'')
      \<and> \<not> kept (stage1 example_world ''Pune'' ''Asia/Kolkata'') (hit ''Z'' 0.88)"
    by (simp add: example_world_def quiet_world_def stage1_def hits_def kept_def hit_def row_def)
  have c: "map vm_community_id (filter (kept (stage1 example_world ''Pune'' ''Asia/Kolkata''))
              (hits example_world [1, 0] ''Pune'' ''Asia/Kolkata''))
           = [Some ''A'', Some ''B'', Some ''C'', Some ''D'', Some ''E'']"
    by (simp add: example_world_def quiet_world_def stage1_def hits_def kept_def hit_def row_def)
  from a merge_drops_stale_hits[of example_world "''Pune''" "''Asia/Kolkata''" "[1, 0]"]
  obtain out where o: "hybrid_matching_algorithm example_world [1, 0] ''Pune'' ''Asia/Kolkata'' = Inr out"
    "mset (map (\<lambda>e. Some (community_id e)) out)
       = mset (map vm_community_id (filter (kept (stage1 example_world ''Pune'' ''Asia/Kolkata''))
              (hits example_world [1, 0] ''Pune'' ''Asia/Kolkata'')))"
    by blast
  from o(1) have "out = example_output" by (simp add: example_world_hybrid)
  with o c have "mset (map (\<lambda>e. Some (community_id e)) example_output)
       = {#Some ''A'', Some ''B'', Some ''C'', Some ''D'', Some ''E''#}" by simp
  with a b show ?thesis by (simp add: example_world_hybrid)
qed

lemma diversity_filter_cases:
  "apply_diversity_filter xs = xs \<or>
   (\<exists>k. 3 \<le> k \<and> k < length xs \<and>
      apply_diversity_filter xs = take 2 xs @ [xs ! k] @ drop 2 (take k xs) @ drop (Suc k) xs)"
proof (cases "4 \<le> length xs \<and> top_3_same xs")
  case False
  then show ?thesis using top3_same[of xs] by (auto simp: apply_diversity_filter_def Let_def)
next
  case True
  show ?thesis
  proof (cases "\<exists>m \<in> set (drop 3 xs). category m \<noteq> category (xs ! 0)")
    case ex: True
    from first_diverse_props[OF ex] diversity_filter_moves[of xs] True ex
    show ?thesis by blast
  next
    case False
    have all: "\<forall>j. 3 \<le> j \<and> j < length xs \<longrightarrow> category (xs ! j) = category (xs ! 0)"
    proof (intro allI impI)
      fix j assume j: "3 \<le> j \<and> j < length xs"
      then have "drop 3 xs ! (j - 3) = xs ! j" "j - 3 < length (drop 3 xs)" by auto
      then have "xs ! j \<in> set (drop 3 xs)" by (metis nth_mem)
      with False show "category (xs ! j) = category (xs ! 0)" by auto
    qed
    have hd: "hd (map category (take 3 xs)) = category (xs ! 0)"
      using True by (cases xs) auto
    have "apply_diversity_filter xs = diversity_loop (category (xs ! 0)) 3 xs"
      using True top3_same[of xs] hd by (simp add: apply_diversity_filter_def Let_def)
    then show ?thesis using diversity_loop_none[OF all] by simp
  qed
qed

lemma sorted_wrt_list_pop: "sorted_wrt P xs \<Longrightarrow> sorted_wrt P (list_pop i xs)"
proof -
  assume s: "sorted_wrt P xs"
  then have "sorted_wrt P (take i xs @ drop i xs)" by simp
  then have c: "\<forall>x \<in> set (take i xs). \<forall>y \<in> set (drop i xs). P x y"
    and t: "sorted_wrt P (take i xs)"
    unfolding sorted_wrt_append by blast+
  have "set (drop (Suc i) xs) \<subseteq> set (drop i xs)" by (rule set_drop_subset_set_drop) simp
  with c have "\<forall>x \<in> set (take i xs). \<forall>y \<in> set (drop (Suc i) xs). P x y" by blast
  moreover have "sorted_wrt P (drop (Suc i) xs)" using s by (rule sorted_wrt_drop)
  ultimately show ?thesis using t by (simp add: list_pop_def sorted_wrt_append)
qed

lemma diversity_filter_pop_sorted:
  assumes "sorted_wrt P xs"
  shows "sorted_wrt P (list_pop 2 (apply_diversity_filter xs))"
proof -
  from diversity_filter_cases[of xs]
  consider "apply_diversity_filter xs = xs"
    | k where "3 \<le> k" "k < length xs"
        "apply_diversity_filter xs = take 2 xs @ [xs ! k] @ drop 2 (take k xs) @ drop (Suc k) xs"
    by blast
  then show ?thesis
  proof cases
    case 1
    with assms show ?thesis by (simp add: sorted_wrt_list_pop)
  next
    case 2
    have l2: "length (take 2 xs) = 2" using 2 by simp
    have "list_pop 2 (apply_diversity_filter xs)
            = take 2 xs @ drop 2 (take k xs) @ drop (Suc k) xs"
      unfolding 2(3) list_pop_def by (simp add: l2 del: length_take)
    also have "take 2 xs = take 2 (take k xs)" using 2 by (simp add: min_def)
    also have "take 2 (take k xs) @ drop 2 (take k xs) @ drop (Suc k) xs = list_pop k xs"
      unfolding list_pop_def by (simp only: append_assoc[symmetric] append_take_drop_id)
    finally show ?thesis using assms by (simp add: sorted_wrt_list_pop)
  qed
qed

lemma enrich_matches_map:
  "enrich_matches (community_map rows) vms = map (merged_entry rows) (filter (kept rows) vms)"
proof (induction vms)
  case Nil
  then show ?case by simp
next
  case (Cons vm vms)
  show ?case
  proof (cases "vm_community_id vm")
    case None
    with Cons show ?thesis by (simp add: kept_def)
  next
    case (Some cid)
    show ?thesis
    proof (cases "community_map rows cid")
      case None
      then have "\<not> kept rows vm"
        using Some by (simp add: kept_def community_map_None[symmetric])
      with Some None Cons show ?thesis by simp
    next
      case c: (Some c)
      from community_map_Some[OF c] have "community_id c = cid" by simp
      then have "\<lparr>community_id = cid, community_name = community_name c, category = category c,
              match_score = Some (vm_match_score vm), member_count = member_count c,
              recent_activity = recent_activity c\<rparr> = c\<lparr>match_score := Some (vm_match_score vm)\<rparr>"
        by (cases c) simp
      moreover from c have "kept rows vm"
        using Some community_map_None[of rows cid] by (auto simp: kept_def)
      ultimately show ?thesis using Some c Cons by (simp add: merged_entry_def)
    qed
  qed
qed

text \<open>
  C4 as stated fails in each of its parts. With the hits in descending order of score,
  the returned list (A, B, D, C, E with scores 0.95, 0.92, 0.86, 0.89, 0.84) is not in
  descending order of score. Two hits of score 0.7 come back in the order of the index,
  the community of 10 members before the one of 50: no tie-break. Hits that the index
  returns in ascending order of score come back in that order: no sort. And with one
  (empty) locality-filter answer and one similarity-search answer, two data stores whose
  popular communities differ give different lists.
\<close>

theorem hybrid_order_counterexample:
  "sorted_wrt (\<lambda>a b. vm_match_score a \<ge> vm_match_score b)
     (hits example_world [1, 0] ''Pune'' ''Asia/Kolkata'')
   \<and> hybrid_matching_algorithm example_world [1, 0] ''Pune'' ''Asia/Kolkata'' = Inr example_output
   \<and> \<not> score_descending example_output
   \<and> \<not> claimed_ranking example_output
   \<and> hybrid_matching_algorithm tie_world [1, 0] ''Pune'' ''Asia/Kolkata''
       = Inr [scored ''S'' ''Art'' 10 0.7, scored ''T'' ''Art'' 50 0.7]
   \<and> score_descending [scored ''S'' ''Art'' 10 0.7, scored ''T'' ''Art'' 50 0.7]
   \<and> \<not> claimed_ranking [scored ''S'' ''Art'' 10 0.7, scored ''T'' ''Art'' 50 0.7]
   \<and> hybrid_matching_algorithm unsorted_world [1, 0] ''Pune'' ''Asia/Kolkata''
       = Inr [scored ''S'' ''Art'' 10 0.6, scored ''T'' ''Art'' 50 0.9]
   \<and> \<not> score_descending [scored ''S'' ''Art'' 10 0.6, scored ''T'' ''Art'' 50 0.9]
   \<and> location_rows (popular_world ''P'') = location_rows (popular_world ''Q'')
   \<and> index_hits (popular_world ''P'') = index_hits (popular_world ''Q'')
   \<and> hybrid_matching_algorithm (popular_world ''P'') [1, 0] ''Pune'' ''Asia/Kolkata''
       = Inr [row ''P'' ''Music'' 900]
   \<and> hybrid_matching_algorithm (popular_world ''Q'') [1, 0] ''Pune'' ''Asia/Kolkata''
       = Inr [row ''Q'' ''Music'' 900]
   \<and> [row ''P'' ''Music'' 900] \<noteq> [row ''Q'' ''Music'' 900]"
proof -
  have 1: "sorted_wrt (\<lambda>a b. vm_match_score a \<ge> vm_match_score b)
     (hits example_world [1, 0] ''Pune'' ''Asia/Kolkata'')"
    by (simp add: example_world_def quiet_world_def hits_def hit_def)
  have 2: "\<not> score_descending example_output \<and> \<not> claimed_ranking example_output"
    by (simp add: score_descending_def claimed_ranking_def ranked_before_def
          example_output_def scored_def row_def score_of_def)
  have 3: "hybrid_matching_algorithm tie_world [1, 0] ''Pune'' ''Asia/Kolkata''
       = Inr [scored ''S'' ''Art'' 10 0.7, scored ''T'' ''Art'' 50 0.7]"
    by (simp add: hybrid_matching_algorithm_def filter_communities_by_location_def
          vector_search_def tie_world_def quiet_world_def community_map_def row_def hit_def
          scored_def apply_diversity_filter_def Let_def)
  have 4: "score_descending [scored ''S'' ''Art'' 10 0.7, scored ''T'' ''Art'' 50 0.7]
      \<and> \<not> claimed_ranking [scored ''S'' ''Art'' 10 0.7, scored ''T'' ''Art'' 50 0.7]"
    by (simp add: score_descending_def claimed_ranking_def ranked_before_def
          scored_def row_def score_of_def)
  have 5: "hybrid_matching_algorithm unsorted_world [1, 0] ''Pune'' ''Asia/Kolkata''
       = Inr [scored ''S'' ''Art'' 10 0.6, scored ''T'' ''Art'' 50 0.9]"
    by (simp add: hybrid_matching_algorithm_def filter_communities_by_location_def
          vector_search_def unsorted_world_def quiet_world_def community_map_def row_def hit_def
          scored_def apply_diversity_filter_def Let_def)
  have 6: "\<not> score_descending [scored ''S'' ''Art'' 10 0.6, scored ''T'' ''Art'' 50 0.9]"
    by (simp add: score_descending_def scored_def row_def score_of_def)
  have 7: "location_rows (popular_world ''P'') = location_rows (popular_world ''Q'')
      \<and> index_hits (popular_world ''P'') = index_hits (popular_world ''Q'')"
    by (simp add: popular_world_def)
  have 8: "hybrid_matching_algorithm (popular_world ''P'') [1, 0] ''Pune'' ''Asia/Kolkata''
       = Inr [row ''P'' ''Music'' 900]
     \<and> hybrid_matching_algorithm (popular_world ''Q'') [1, 0] ''Pune'' ''Asia/Kolkata''
       = Inr [row ''Q'' ''Music'' 900]
     \<and> [row ''P'' ''Music'' 900] \<noteq> [row ''Q'' ''Music'' 900]"
    by (simp add: hybrid_matching_algorithm_def filter_communities_by_location_def
          get_popular_communities_def popular_world_def quiet_world_def row_def)
  from 1 2 3 4 5 6 7 8 example_world_hybrid show ?thesis by blast
qed

text \<open>
  C4, amended. The matcher neither sorts nor breaks ties. When the locality filter
  returns rows and the similarity search answers, the merged list is the list of the
  hits that have a row, each merged with its row, in the order in which the search
  returned them; the returned list is the merged list, or the merged list with one
  entry from index 3 on moved to index 2, and it is the merged list when that has fewer
  than four entries or its first three do not share one category. When the hits come in
  descending order of score, the merged list is in descending order of score and so is
  the returned list without its entry at index 2. The returned list is the same for the
  same outcomes of the locality filter, the similarity search and the
  popular-communities query.
\<close>

theorem hybrid_order:
  "(\<not> raises w FilterByLocation \<and> \<not> raises w VectorSearch \<and> stage1 w city tz \<noteq> [] \<longrightarrow>
      (\<exists>merged out.
         merged = map (merged_entry (stage1 w city tz))
                    (filter (kept (stage1 w city tz)) (hits w v city tz))
         \<and> hybrid_matching_algorithm w v city tz = Inr out
         \<and> out = apply_diversity_filter merged
         \<and> (out = merged
             \<or> (\<exists>k. 3 \<le> k \<and> k < length merged
                  \<and> out = take 2 merged @ [merged ! k] @ drop 2 (take k merged)
                            @ drop (Suc k) merged))
         \<and> (length merged < 4 \<or> \<not> top_3_same merged \<longrightarrow> out = merged)
         \<and> (sorted_wrt (\<lambda>a b. vm_match_score a \<ge> vm_match_score b) (hits w v city tz) \<longrightarrow>
              score_descending merged \<and> score_descending (list_pop 2 out))))
   \<and> (raises w' FilterByLocation = raises w FilterByLocation
        \<and> raises w' VectorSearch = raises w VectorSearch
        \<and> raises w' PopularCommunities = raises w PopularCommunities
        \<and> location_rows w' city tz = location_rows w city tz
        \<and> index_hits w' v = index_hits w v \<and> popular_rows w' = popular_rows w \<longrightarrow>
        hybrid_matching_algorithm w' v city tz = hybrid_matching_algorithm w v city tz)"
proof (intro conjI impI)
  assume h: "\<not> raises w FilterByLocation \<and> \<not> raises w VectorSearch \<and> stage1 w city tz \<noteq> []"
  let ?rows = "stage1 w city tz"
  let ?hits = "hits w v city tz"
  let ?merged = "map (merged_entry ?rows) (filter (kept ?rows) ?hits)"
  let ?out = "apply_diversity_filter ?merged"
  have m: "enrich_matches (community_map ?rows) ?hits = ?merged" by (rule enrich_matches_map)
  from h have out: "hybrid_matching_algorithm w v city tz = Inr ?out"
    using hybrid_merged[of w city tz v] by (simp add: m)
  have cases: "?out = ?merged
             \<or> (\<exists>k. 3 \<le> k \<and> k < length ?merged
                  \<and> ?out = take 2 ?merged @ [?merged ! k] @ drop 2 (take k ?merged)
                            @ drop (Suc k) ?merged)"
    by (rule diversity_filter_cases)
  have un: "length ?merged < 4 \<or> \<not> top_3_same ?merged \<longrightarrow> ?out = ?merged"
    using top3_same[of ?merged] by (auto simp: apply_diversity_filter_def Let_def)
  have sorted: "sorted_wrt (\<lambda>a b. vm_match_score a \<ge> vm_match_score b) ?hits \<longrightarrow>
              score_descending ?merged \<and> score_descending (list_pop 2 ?out)"
  proof
    assume s: "sorted_wrt (\<lambda>a b. vm_match_score a \<ge> vm_match_score b) ?hits"
    have sc: "map score_of ?merged = map vm_match_score (filter (kept ?rows) ?hits)"
      using enrich_matches_scores[of ?rows ?hits] by (simp only: m)
    from s have "sorted_wrt (\<lambda>a b. vm_match_score a \<ge> vm_match_score b) (filter (kept ?rows) ?hits)"
      by (rule sorted_wrt_filter)
    then have "sorted_wrt (\<lambda>a b. a \<ge> b) (map vm_match_score (filter (kept ?rows) ?hits))"
      by (simp add: sorted_wrt_map)
    then have "sorted_wrt (\<lambda>a b. a \<ge> b) (map score_of ?merged)" by (simp only: sc)
    then have sd: "score_descending ?merged"
      unfolding score_descending_def sorted_wrt_map .
    then have "score_descending (list_pop 2 ?out)"
      unfolding score_descending_def by (rule diversity_filter_pop_sorted)
    with sd show "score_descending ?merged \<and> score_descending (list_pop 2 ?out)" ..
  qed
  from out cases un sorted
  show "\<exists>merged out.
         merged = map (merged_entry (stage1 w city tz))
                    (filter (kept (stage1 w city tz)) (hits w v city tz))
         \<and> hybrid_matching_algorithm w v city tz = Inr out
         \<and> out = apply_diversity_filter merged
         \<and> (out = merged
             \<or> (\<exists>k. 3 \<le> k \<and> k < length merged
                  \<and> out = take 2 merged @ [merged ! k] @ drop 2 (take k merged)
                            @ drop (Suc k) merged))
         \<and> (length merged < 4 \<or> \<not> top_3_same merged \<longrightarrow> out = merged)
         \<and> (sorted_wrt (\<lambda>a b. vm_match_score a \<ge> vm_match_score b) (hits w v city tz) \<longrightarrow>
              score_descending merged \<and> score_descending (list_pop 2 out))"
    by blast
next
  assume "raises w' FilterByLocation = raises w FilterByLocation
        \<and> raises w' VectorSearch = raises w VectorSearch
        \<and> raises w' PopularCommunities = raises w PopularCommunities
        \<and> location_rows w' city tz = location_rows w city tz
        \<and> index_hits w' v = index_hits w v \<and> popular_rows w' = popular_rows w"
  then show "hybrid_matching_algorithm w' v city tz = hybrid_matching_algorithm w v city tz"
    by (simp add: hybrid_matching_algorithm_def filter_communities_by_location_def
          vector_search_def get_popular_communities_def)
qed

theorem hybrid_order_witness:
  "\<not> raises example_world FilterByLocation \<and> \<not> raises example_world VectorSearch
   \<and> stage1 example_world ''Pune'' ''Asia/Kolkata'' \<noteq> []
   \<and> sorted_wrt (\<lambda>a b. vm_match_score a \<ge> vm_match_score b)
       (hits example_world [1, 0] ''Pune'' ''Asia/Kolkata'')
   \<and> hybrid_matching_algorithm example_world [1, 0] ''Pune'' ''Asia/Kolkata'' = Inr example_output
   \<and> map community_id (map (merged_entry (stage1 example_world ''Pune'' ''Asia/Kolkata''))
        (filter (kept (stage1 example_world ''Pune'' ''Asia/Kolkata''))
           (hits example_world [1, 0] ''Pune'' ''Asia/Kolkata'')))
       = [''A'', ''B'', ''C'', ''D'', ''E'']
   \<and> score_descending (list_pop 2 example_output)
   \<and> hybrid_matching_algorithm (example_world\<lparr>elapsed_ms := 7\<rparr>) [1, 0] ''Pune'' ''Asia/Kolkata''
       = Inr example_output"
proof -
  have a: "\<not> raises example_world FilterByLocation \<and> \<not> raises example_world VectorSearch
      \<and> stage1 example_world ''Pune'' ''Asia/Kolkata'' \<noteq> []"
    by (simp add: example_world_def quiet_world_def stage1_def)
  have a': "sorted_wrt (\<lambda>a b. vm_match_score a \<ge> vm_match_score b)
          (hits example_world [1, 0] ''Pune'' ''Asia/Kolkata'')"
    by (simp add: example_world_def quiet_world_def stage1_def hits_def hit_def)
  have b: "raises (example_world\<lparr>elapsed_ms := 7\<rparr>) FilterByLocation = raises example_world FilterByLocation
      \<and> raises (example_world\<lparr>elapsed_ms := 7\<rparr>) VectorSearch = raises example_world VectorSearch
      \<and> raises (example_world\<lparr>elapsed_ms := 7\<rparr>) PopularCommunities
          = raises example_world PopularCommunities
      \<and> location_rows (example_world\<lparr>elapsed_ms := 7\<rparr>) ''Pune'' ''Asia/Kolkata''
          = location_rows example_world ''Pune'' ''Asia/Kolkata''
      \<and> index_hits (example_world\<lparr>elapsed_ms := 7\<rparr>) [1, 0] = index_hits example_world [1, 0]
      \<and> popular_rows (example_world\<lparr>elapsed_ms := 7\<rparr>) = popular_rows example_world"
    by simp
  have c: "map community_id (map (merged_entry (stage1 example_world ''Pune'' ''Asia/Kolkata''))
        (filter (kept (stage1 example_world ''Pune'' ''Asia/Kolkata''))
           (hits example_world [1, 0] ''Pune'' ''Asia/Kolkata'')))
       = [''A'', ''B'', ''C'', ''D'', ''E'']"
    by (simp add: example_world_def quiet_world_def stage1_def hits_def kept_def hit_def row_def
          merged_entry_def community_map_def)
  note t = hybrid_order[of example_world "''Pune''" "''Asia/Kolkata''" "[1, 0]"
      "example_world\<lparr>elapsed_ms := 7\<rparr>"]
  from t a a' obtain out where o:
    "hybrid_matching_algorithm example_world [1, 0] ''Pune'' ''Asia/Kolkata'' = Inr out"
    "score_descending (list_pop 2 out)" by blast
  from o(1) have "out = example_output" by (simp add: example_world_hybrid)
  with o have 1: "score_descending (list_pop 2 example_output)" by simp
  from t b have 2: "hybrid_matching_algorithm (example_world\<lparr>elapsed_ms := 7\<rparr>) [1, 0] ''Pune''
      ''Asia/Kolkata'' = hybrid_matching_algorithm example_world [1, 0] ''Pune'' ''Asia/Kolkata''"
    by blast
  from a a' c 1 2 show ?thesis by (simp add: example_world_hybrid)
qed


section \<open>Task orchestrator\<close>

text \<open>
  C3 at a submission whose locality filter returns no row while the data store has a
  popular community: the matcher skips the similarity search and returns the popular
  rows, which carry no score; the decision engine then reads \<open>match_score\<close> of the top
  row, and the task fails with a KeyError in the step decision_engine instead of
  producing the Fallback result.
\<close>

theorem no_locality_matches_fails:
  "stage1 no_locality_world ''Austin'' ''America/Chicago'' = []
   \<and> hybrid_matching_algorithm no_locality_world [1, 0] ''Austin'' ''America/Chicago''
       = Inr [row ''P'' ''Music'' 900]
   \<and> snd (apply_decision_engine no_locality_world empty_store ''t'' ''u'' ''bio''
             [row ''P'' ''Music'' 900]) = Inl (KeyError ''match_score'')
   \<and> snd (process_match_task no_locality_world empty_store ''t'' example_user)
       = Inl (KeyError ''match_score'')
   \<and> failed_step (task_updates (fst (process_match_task no_locality_world empty_store ''t''
          example_user))) = Some ''decision_engine''"
  by (simp add: no_locality_world_def quiet_world_def stage1_def hybrid_matching_algorithm_def
        filter_communities_by_location_def get_popular_communities_def row_def
        apply_decision_engine_def process_match_task_def example_user_def empty_store_def
        sanitize_and_enrich_profile_def SanitizedProfile_def generate_embedding_def
        set_user_vector_def update_state_def task_failed_def failed_step_def Let_def)















section \<open>Realtime gateway\<close>

lemma broadcast_loop_result:
  "active_connections gw uid = Some c \<Longrightarrow>
   broadcast_loop er uid sids gw =
     Inr (gw\<lparr>attempts := attempts gw @ map (\<lambda>sid. (''match_result'', sid)) sids,
             active_connections :=
               (active_connections gw)(uid \<mapsto> fold Dlist.remove (filter er sids) c)\<rparr>)"
proof (induction sids arbitrary: gw c)
  case Nil
  then show ?case by (simp add: map_upd_triv)
next
  case (Cons sid sids)
  show ?case
  proof (cases "er sid")
    case True
    let ?gw1 = "gw\<lparr>attempts := attempts gw @ [(''match_result'', sid)]\<rparr>"
    let ?gw2 = "?gw1\<lparr>active_connections := (active_connections ?gw1)(uid \<mapsto> Dlist.remove sid c)\<rparr>"
    have "active_connections ?gw2 uid = Some (Dlist.remove sid c)" by simp
    from Cons.IH[OF this] True Cons.prems show ?thesis
      by (simp add: emit_def cong: if_cong)
  next
    case False
    let ?gw1 = "gw\<lparr>attempts := attempts gw @ [(''match_result'', sid)]\<rparr>"
    have "active_connections ?gw1 uid = Some c" using Cons.prems by simp
    from Cons.IH[OF this] False show ?thesis
      by (simp add: emit_def)
  qed
qed

lemma fold_remove_list:
  "list_of_dlist (fold Dlist.remove xs c) = filter (\<lambda>x. x \<notin> set xs) (list_of_dlist c)"
proof (induction xs arbitrary: c)
  case Nil
  then show ?case by simp
next
  case (Cons x xs)
  have "remove1 x (list_of_dlist c) = filter (\<lambda>y. y \<noteq> x) (list_of_dlist c)"
    by (simp add: distinct_remove1_removeAll removeAll_filter_not_eq) (metis)
  then show ?case using Cons.IH[of "Dlist.remove x c"] by (auto intro: filter_cong)
qed

lemma fold_remove_failed:
  "fold Dlist.remove (filter er (list_of_dlist c)) c = Dlist.filter (\<lambda>sid. \<not> er sid) c"
  by (simp add: dlist_eq_iff fold_remove_list) (auto intro: filter_cong)

lemma one_tab_eq:
  "one_tab = \<lparr>active_connections = [''u'' \<mapsto> tabs [''s1'']], sessions = [''s1'' \<mapsto> ''u''],
              attempts = [(''connection_status'', ''s1'')]\<rparr>"
  by (simp add: one_tab_def connect_def auth_of_def empty_gateway_def emit_def tabs_def Let_def)

lemma three_tabs_eq:
  "three_tabs =
     \<lparr>active_connections = [''u'' \<mapsto> tabs [''s3'', ''s2'', ''s1'']],
      sessions = [''s1'' \<mapsto> ''u'', ''s2'' \<mapsto> ''u'', ''s3'' \<mapsto> ''u''],
      attempts = [(''connection_status'', ''s1''), (''connection_status'', ''s2''),
                  (''connection_status'', ''s3'')]\<rparr>"
  by (simp add: three_tabs_def one_tab_eq connect_def auth_of_def emit_def tabs_def Let_def)

lemma tabs_list: "distinct sids \<Longrightarrow> list_of_dlist (tabs sids) = sids"
  by (induction sids) (auto simp: tabs_def)

lemma broadcast_delivered:
  "active_connections gw uid = Some conns \<Longrightarrow>
     broadcast_to_user emit_raises gw uid = Inr (delivered emit_raises uid conns gw)"
  using broadcast_loop_result[of gw uid conns emit_raises "list_of_dlist conns"]
  by (simp add: broadcast_to_user_def delivered_def fold_remove_failed)

text \<open>
  C6. A result published for a user whose key is in the registry is sent once to every
  connection in the user's set, whichever of the sends raise (three connections, three
  attempts); afterwards the set holds exactly the connections whose send did not raise,
  the sets of the other users are as before, and the broadcast returns without an
  error. For a user without a key nothing is sent and the gateway is unchanged.
\<close>

theorem fan_out:
  "(active_connections gw uid = Some conns \<longrightarrow>
      broadcast_to_user emit_raises gw uid = Inr (delivered emit_raises uid conns gw)
      \<and> map snd (drop (length (attempts gw)) (attempts (delivered emit_raises uid conns gw)))
          = list_of_dlist conns
      \<and> distinct (list_of_dlist conns)
      \<and> length (attempts (delivered emit_raises uid conns gw))
          = length (attempts gw) + Dlist.length conns
      \<and> (\<forall>sid. Dlist.member (the (active_connections (delivered emit_raises uid conns gw) uid)) sid
                = (Dlist.member conns sid \<and> \<not> emit_raises sid))
      \<and> (\<forall>other. other \<noteq> uid \<longrightarrow>
             active_connections (delivered emit_raises uid conns gw) other
               = active_connections gw other))
   \<and> (active_connections gw uid = None \<longrightarrow> broadcast_to_user emit_raises gw uid = Inr gw)"
proof (intro conjI impI)
  assume h: "active_connections gw uid = Some conns"
  show "broadcast_to_user emit_raises gw uid = Inr (delivered emit_raises uid conns gw)"
    using h by (rule broadcast_delivered)
  show "map snd (drop (length (attempts gw)) (attempts (delivered emit_raises uid conns gw)))
          = list_of_dlist conns"
    by (simp add: delivered_def comp_def)
  show "distinct (list_of_dlist conns)" by simp
  show "length (attempts (delivered emit_raises uid conns gw))
          = length (attempts gw) + Dlist.length conns"
    by (simp add: delivered_def Dlist.length_def)
  show "\<forall>sid. Dlist.member (the (active_connections (delivered emit_raises uid conns gw) uid)) sid
                = (Dlist.member conns sid \<and> \<not> emit_raises sid)"
    by (auto simp: delivered_def Dlist.member_def)
  show "\<forall>other. other \<noteq> uid \<longrightarrow>
             active_connections (delivered emit_raises uid conns gw) other
               = active_connections gw other"
    by (simp add: delivered_def)
next
  assume "active_connections gw uid = None"
  then show "broadcast_to_user emit_raises gw uid = Inr gw"
    by (simp add: broadcast_to_user_def)
qed

theorem fan_out_witness:
  "active_connections three_tabs ''u'' = Some (tabs [''s3'', ''s2'', ''s1''])
   \<and> broadcast_to_user (\<lambda>sid. sid = ''s2'') three_tabs ''u''
       = Inr (delivered (\<lambda>sid. sid = ''s2'') ''u'' (tabs [''s3'', ''s2'', ''s1'']) three_tabs)
   \<and> map snd (drop (length (attempts three_tabs))
        (attempts (delivered (\<lambda>sid. sid = ''s2'') ''u'' (tabs [''s3'', ''s2'', ''s1'']) three_tabs)))
       = [''s3'', ''s2'', ''s1'']
   \<and> list_of_dlist (the (active_connections
        (delivered (\<lambda>sid. sid = ''s2'') ''u'' (tabs [''s3'', ''s2'', ''s1'']) three_tabs) ''u''))
       = [''s3'', ''s1'']
   \<and> active_connections three_tabs ''v'' = None
   \<and> broadcast_to_user (\<lambda>sid. sid = ''s2'') three_tabs ''v'' = Inr three_tabs"
proof -
  have a: "active_connections three_tabs ''u'' = Some (tabs [''s3'', ''s2'', ''s1''])"
    by (simp add: three_tabs_eq)
  have b: "active_connections three_tabs ''v'' = None" by (simp add: three_tabs_eq)
  have l: "list_of_dlist (tabs [''s3'', ''s2'', ''s1'']) = [''s3'', ''s2'', ''s1'']"
    by (simp add: tabs_list)
  note t = fan_out[where gw = three_tabs and uid = "''u''" and conns = "tabs [''s3'', ''s2'', ''s1'']"
      and emit_raises = "\<lambda>sid. sid = ''s2''"]
  from t a have 1: "broadcast_to_user (\<lambda>sid. sid = ''s2'') three_tabs ''u''
       = Inr (delivered (\<lambda>sid. sid = ''s2'') ''u'' (tabs [''s3'', ''s2'', ''s1'']) three_tabs)
     \<and> map snd (drop (length (attempts three_tabs))
        (attempts (delivered (\<lambda>sid. sid = ''s2'') ''u'' (tabs [''s3'', ''s2'', ''s1'']) three_tabs)))
       = list_of_dlist (tabs [''s3'', ''s2'', ''s1''])"
    by blast
  have 2: "list_of_dlist (the (active_connections
        (delivered (\<lambda>sid. sid = ''s2'') ''u'' (tabs [''s3'', ''s2'', ''s1'']) three_tabs) ''u''))
       = [''s3'', ''s1'']"
    by (simp add: delivered_def l)
  from b fan_out[where gw = three_tabs and uid = "''v''" and emit_raises = "\<lambda>sid. sid = ''s2''"]
  have 3: "broadcast_to_user (\<lambda>sid. sid = ''s2'') three_tabs ''v'' = Inr three_tabs" by blast
  from a b 1 2 3 show ?thesis by (simp add: l)
qed

lemma list_insert_not_Nil: "List.insert x xs \<noteq> []"
  by (auto simp: List.insert_def)

lemma connect_no_empty_sets:
  "no_empty_sets gw \<Longrightarrow> no_empty_sets (fst (connect emit_raises gw sid auth))"
  by (auto simp: no_empty_sets_def connect_def emit_def Let_def Dlist.null_def
        list_insert_not_Nil split: option.splits if_splits)

lemma disconnect_no_empty_sets:
  "no_empty_sets gw \<Longrightarrow> no_empty_sets (disconnect gw sid)"
  by (auto simp: no_empty_sets_def disconnect_def Let_def split: option.splits if_splits)

text \<open>
  C7. \<open>connect\<close> and \<open>disconnect\<close> keep the registry free of empty sets. The delivery-time
  removal does not: when the sends to all connections of a user raise, the broadcast
  discards them one by one and leaves the user's key with the empty set. At the gateway
  in which user u has its one connection s1 this happens, and only the later
  \<open>disconnect\<close> of s1 deletes the key.
\<close>

theorem stale_removal_leaves_empty_set:
  "(no_empty_sets gw \<longrightarrow>
      no_empty_sets (fst (connect emit_raises gw sid auth)) \<and> no_empty_sets (disconnect gw sid))
   \<and> (active_connections gw uid = Some conns
        \<and> (\<forall>sid. Dlist.member conns sid \<longrightarrow> emit_raises sid) \<longrightarrow>
        (\<exists>gw'. broadcast_to_user emit_raises gw uid = Inr gw'
           \<and> active_connections gw' uid = Some Dlist.empty
           \<and> \<not> no_empty_sets gw'))"
proof (intro conjI impI)
  assume "no_empty_sets gw"
  then show "no_empty_sets (fst (connect emit_raises gw sid auth))"
    by (rule connect_no_empty_sets)
next
  assume "no_empty_sets gw"
  then show "no_empty_sets (disconnect gw sid)" by (rule disconnect_no_empty_sets)
next
  assume h: "active_connections gw uid = Some conns
        \<and> (\<forall>sid. Dlist.member conns sid \<longrightarrow> emit_raises sid)"
  let ?gw' = "delivered emit_raises uid conns gw"
  from h have b: "broadcast_to_user emit_raises gw uid = Inr ?gw'"
    by (intro broadcast_delivered) simp
  from h have "filter (\<lambda>sid. \<not> emit_raises sid) (list_of_dlist conns) = []"
    by (auto simp: filter_empty_conv Dlist.member_def)
  then have "Dlist.filter (\<lambda>sid. \<not> emit_raises sid) conns = Dlist.empty"
    by (simp add: dlist_eq_iff)
  then have c: "active_connections ?gw' uid = Some Dlist.empty" by (simp add: delivered_def)
  have "Dlist.null (Dlist.empty :: string dlist)" by (simp add: Dlist.null_def)
  with c have "\<not> no_empty_sets ?gw'" unfolding no_empty_sets_def by blast
  with b c show "\<exists>gw'. broadcast_to_user emit_raises gw uid = Inr gw'
           \<and> active_connections gw' uid = Some Dlist.empty
           \<and> \<not> no_empty_sets gw'" by blast
qed

theorem stale_removal_leaves_empty_set_witness:
  "no_empty_sets one_tab
   \<and> active_connections one_tab ''u'' = Some (tabs [''s1''])
   \<and> broadcast_to_user (\<lambda>sid. True) one_tab ''u'' = Inr stale_tab
   \<and> active_connections stale_tab ''u'' = Some Dlist.empty
   \<and> \<not> no_empty_sets stale_tab
   \<and> no_empty_sets (disconnect stale_tab ''s1'')"
proof -
  have l: "list_of_dlist (tabs [''s1'']) = [''s1'']" by (simp add: tabs_list)
  have a: "no_empty_sets one_tab"
    by (simp add: one_tab_eq no_empty_sets_def Dlist.null_def l)
  have a': "active_connections one_tab ''u'' = Some (tabs [''s1''])" by (simp add: one_tab_eq)
  have "Dlist.remove ''s1'' (tabs [''s1'']) = Dlist.empty"
    by (simp add: dlist_eq_iff l)
  then have b: "broadcast_to_user (\<lambda>sid. True) one_tab ''u'' = Inr stale_tab"
    by (simp add: broadcast_to_user_def one_tab_eq l emit_def stale_tab_def)
  from a' stale_removal_leaves_empty_set[where gw = one_tab and uid = "''u''"
      and conns = "tabs [''s1'']" and emit_raises = "\<lambda>sid. True"]
  obtain gw' where g: "broadcast_to_user (\<lambda>sid. True) one_tab ''u'' = Inr gw'"
    "active_connections gw' ''u'' = Some Dlist.empty" "\<not> no_empty_sets gw'"
    by blast
  from g(1) b have "gw' = stale_tab" by simp
  with g have c: "active_connections stale_tab ''u'' = Some Dlist.empty"
    and d: "\<not> no_empty_sets stale_tab" by simp_all
  have "Dlist.remove ''s1'' (Dlist.empty :: string dlist) = Dlist.empty"
    by (simp add: dlist_eq_iff)
  then have e: "no_empty_sets (disconnect stale_tab ''s1'')"
    by (simp add: disconnect_def stale_tab_def Let_def Dlist.null_def no_empty_sets_def)
  from a a' b c d e show ?thesis by blast
qed

end
